theory Spec2Isabelle
  imports Main "HOL-Library.Word"
begin

unbundle bit_operations_syntax

section \<open>flink core module: data model (flink.h)\<close>

type_synonym u8 = "8 word"
type_synonym u16 = "16 word"
type_synonym u32 = "32 word"

text \<open>
  \<^verbatim>\<open>struct flink_bus_ops\<close>: the function pointers of a bus communication module.
  The type \<open>'b\<close> is the bus specific data (\<^verbatim>\<open>void* bus_data\<close>). A read returns
  the value the hardware shows at the address; a write returns the new bus data
  (the \<^verbatim>\<open>int\<close> a write returns is discarded at every call site of the core module).
\<close>

record 'b flink_bus_ops =
  read8 :: "'b \<Rightarrow> u32 \<Rightarrow> u8"
  read16 :: "'b \<Rightarrow> u32 \<Rightarrow> u16"
  read32 :: "'b \<Rightarrow> u32 \<Rightarrow> u32"
  write8 :: "'b \<Rightarrow> u32 \<Rightarrow> u8 \<Rightarrow> 'b"
  write16 :: "'b \<Rightarrow> u32 \<Rightarrow> u16 \<Rightarrow> 'b"
  write32 :: "'b \<Rightarrow> u32 \<Rightarrow> u32 \<Rightarrow> 'b"
  address_space_size :: "'b \<Rightarrow> u32"

text \<open>The calls of bus operations, in the order the core module makes them.\<close>

datatype bus_access =
    BusRead8 u32
  | BusRead16 u32
  | BusRead32 u32
  | BusWrite8 u32 u8
  | BusWrite16 u32 u16
  | BusWrite32 u32 u32
  | BusAddressSpaceSize

definition MAX_NOF_SUBDEVICES :: nat where "MAX_NOF_SUBDEVICES = 256"
definition MAIN_HEADER_SIZE :: u32 where "MAIN_HEADER_SIZE = 16"
definition SUB_HEADER_SIZE :: u32 where "SUB_HEADER_SIZE = 16"
definition SUBDEV_FUNCTION_OFFSET :: u32 where "SUBDEV_FUNCTION_OFFSET = 0x0000"
definition SUBDEV_SIZE_OFFSET :: u32 where "SUBDEV_SIZE_OFFSET = 0x0004"
definition SUBDEV_NOFCHANNELS_OFFSET :: u32 where "SUBDEV_NOFCHANNELS_OFFSET = 0x0008"
definition SUBDEV_UNIQUE_ID_OFFSET :: u32 where "SUBDEV_UNIQUE_ID_OFFSET = 0x000C"
definition INFO_FUNCTION_ID :: u16 where "INFO_FUNCTION_ID = 0x00"

text \<open>
  \<^verbatim>\<open>struct flink_subdevice\<close>. The list linkage is the position in the parent's list and
  the parent pointer is the device the record is stored in.
\<close>

record flink_subdevice =
  id_subdev :: u8
  function_id :: u16
  sub_function_id :: u8
  function_version :: u8
  base_addr :: u32
  mem_size :: u32
  nof_channels :: u32
  unique_id :: u32

text \<open>\<^verbatim>\<open>struct flink_process_data\<close> and the part of \<^verbatim>\<open>struct task_struct\<close> the module reads.\<close>

record task_struct =
  pid :: int

record flink_process_data =
  user_task :: task_struct

text \<open>
  \<^verbatim>\<open>struct flink_irq_data\<close>. The field \<open>flink_process_data_list\<close> is the list headed by
  the C field \<^verbatim>\<open>flink_process_data\<close>, first element first. The spinlock and the mutex are
  not modelled: every operation below runs alone.
\<close>

record flink_irq_data =
  flink_process_data_list :: "flink_process_data list"
  irq_nr :: u32
  signal_count :: u32
  signal_nr_with_offset :: u32
  irq_nr_with_offset :: u32

text \<open>
  \<^verbatim>\<open>struct flink_device\<close>. Both lists have the element that \<^verbatim>\<open>list_add\<close> inserted last at
  their head. \<open>bus_log\<close> is not a field of the C structure: it records every call of a
  bus operation made through this device, oldest first.
\<close>

record 'b flink_device =
  id_dev :: u8
  nof_subdevices :: u8
  subdevices :: "flink_subdevice list"
  bus_ops :: "'b flink_bus_ops"
  bus_data :: 'b
  hw_irq_data :: "flink_irq_data list"
  nof_irqs :: u32
  irq_offset :: u32
  signal_offset :: u32
  bus_log :: "bus_access list"

section \<open>Bus operations called through a device\<close>

definition bus_read8 :: "'b flink_device \<Rightarrow> u32 \<Rightarrow> u8 \<times> 'b flink_device" where
  "bus_read8 fdev addr =
     (read8 (bus_ops fdev) (bus_data fdev) addr,
      fdev\<lparr>bus_log := bus_log fdev @ [BusRead8 addr]\<rparr>)"

definition bus_read16 :: "'b flink_device \<Rightarrow> u32 \<Rightarrow> u16 \<times> 'b flink_device" where
  "bus_read16 fdev addr =
     (read16 (bus_ops fdev) (bus_data fdev) addr,
      fdev\<lparr>bus_log := bus_log fdev @ [BusRead16 addr]\<rparr>)"

definition bus_read32 :: "'b flink_device \<Rightarrow> u32 \<Rightarrow> u32 \<times> 'b flink_device" where
  "bus_read32 fdev addr =
     (read32 (bus_ops fdev) (bus_data fdev) addr,
      fdev\<lparr>bus_log := bus_log fdev @ [BusRead32 addr]\<rparr>)"

definition bus_write8 :: "'b flink_device \<Rightarrow> u32 \<Rightarrow> u8 \<Rightarrow> 'b flink_device" where
  "bus_write8 fdev addr val =
     fdev\<lparr>bus_data := write8 (bus_ops fdev) (bus_data fdev) addr val,
          bus_log := bus_log fdev @ [BusWrite8 addr val]\<rparr>"

definition bus_write16 :: "'b flink_device \<Rightarrow> u32 \<Rightarrow> u16 \<Rightarrow> 'b flink_device" where
  "bus_write16 fdev addr val =
     fdev\<lparr>bus_data := write16 (bus_ops fdev) (bus_data fdev) addr val,
          bus_log := bus_log fdev @ [BusWrite16 addr val]\<rparr>"

definition bus_write32 :: "'b flink_device \<Rightarrow> u32 \<Rightarrow> u32 \<Rightarrow> 'b flink_device" where
  "bus_write32 fdev addr val =
     fdev\<lparr>bus_data := write32 (bus_ops fdev) (bus_data fdev) addr val,
          bus_log := bus_log fdev @ [BusWrite32 addr val]\<rparr>"

definition bus_address_space_size :: "'b flink_device \<Rightarrow> u32 \<times> 'b flink_device" where
  "bus_address_space_size fdev =
     (address_space_size (bus_ops fdev) (bus_data fdev),
      fdev\<lparr>bus_log := bus_log fdev @ [BusAddressSpaceSize]\<rparr>)"

section \<open>Subdevices (flink_core.c)\<close>

text \<open>\<^verbatim>\<open>flink_subdevice_init\<close>: the structure after \<^verbatim>\<open>memset(fsubdev, 0, ...)\<close>.\<close>

definition flink_subdevice_init :: flink_subdevice where
  "flink_subdevice_init =
     \<lparr>id_subdev = 0, function_id = 0, sub_function_id = 0, function_version = 0,
      base_addr = 0, mem_size = 0, nof_channels = 0, unique_id = 0\<rparr>"

text \<open>
  \<^verbatim>\<open>flink_subdevice_add\<close> for two pointers that are not NULL: the id is the device's
  counter, which is a \<^verbatim>\<open>u8\<close> and wraps; the subdevice goes to the head of the list.
  Returns the subdevice as stored and the device.
\<close>

definition flink_subdevice_add ::
  "'b flink_device \<Rightarrow> flink_subdevice \<Rightarrow> flink_subdevice \<times> 'b flink_device" where
  "flink_subdevice_add fdev fsubdev =
     (let fsubdev' = fsubdev\<lparr>id_subdev := nof_subdevices fdev\<rparr>
      in (fsubdev',
          fdev\<lparr>nof_subdevices := nof_subdevices fdev + 1,
               subdevices := fsubdev' # subdevices fdev\<rparr>))"

text \<open>\<^verbatim>\<open>flink_get_subdevice_by_id\<close>: the first subdevice of the list with the id, NULL as None.\<close>

definition flink_get_subdevice_by_id ::
  "'b flink_device option \<Rightarrow> u8 \<Rightarrow> flink_subdevice option" where
  "flink_get_subdevice_by_id fdev ident =
     (case fdev of
        None \<Rightarrow> None
      | Some d \<Rightarrow> find (\<lambda>subdev. id_subdev subdev = ident) (subdevices d))"

section \<open>The subdevice scanner\<close>

text \<open>The local variables of \<^verbatim>\<open>scan_for_subdevices\<close> that live across loop iterations.\<close>

record 'b scan_state =
  dev :: "'b flink_device"
  subdevice_counter :: nat
  current_address :: u32
  last_address :: u32

text \<open>The condition of the \<^verbatim>\<open>while\<close> loop.\<close>

definition scan_guard :: "'b scan_state \<Rightarrow> bool" where
  "scan_guard s \<longleftrightarrow>
     current_address s < last_address s \<and> subdevice_counter s < MAX_NOF_SUBDEVICES"

text \<open>
  One pass through the body of the loop. The boolean is False when the body leaves
  the loop through \<^verbatim>\<open>break\<close>. The allocation of the new subdevice is taken to succeed
  (the C code does not test it).
\<close>

definition scan_body :: "'b scan_state \<Rightarrow> bool \<times> 'b scan_state" where
  "scan_body s =
     (let (current_function, fdev1) =
            bus_read32 (dev s) (current_address s + SUBDEV_FUNCTION_OFFSET);
          (current_mem_size, fdev2) =
            bus_read32 fdev1 (current_address s + SUBDEV_SIZE_OFFSET)
      in if current_mem_size > MAIN_HEADER_SIZE + SUB_HEADER_SIZE then
           let new_subdev = flink_subdevice_init
                 \<lparr>function_id := ucast (drop_bit 16 current_function),
                  sub_function_id := ucast (drop_bit 8 current_function AND 0xFF),
                  function_version := ucast (current_function AND 0xFF),
                  base_addr := current_address s,
                  mem_size := current_mem_size\<rparr>;
               (channels, fdev3) =
                 bus_read32 fdev2 (current_address s + SUBDEV_NOFCHANNELS_OFFSET);
               (unique, fdev4) =
                 bus_read32 fdev3 (current_address s + SUBDEV_UNIQUE_ID_OFFSET);
               (new_subdev, fdev5) =
                 flink_subdevice_add fdev4
                   (new_subdev\<lparr>nof_channels := channels, unique_id := unique\<rparr>);
               (last_address', fdev6) =
                 (if function_id new_subdev = INFO_FUNCTION_ID then
                    let (total_mem_size, fdev6) =
                          bus_read32 fdev5
                            (current_address s + MAIN_HEADER_SIZE + SUB_HEADER_SIZE)
                    in (total_mem_size - 1, fdev6)
                  else (last_address s, fdev5))
           in (True,
               \<lparr>dev = fdev6,
                subdevice_counter = subdevice_counter s + 1,
                current_address = current_address s + current_mem_size,
                last_address = last_address'\<rparr>)
         else (False, s\<lparr>dev := fdev2\<rparr>))"

text \<open>The \<^verbatim>\<open>while\<close> loop: at most \<open>MAX_NOF_SUBDEVICES\<close> passes.\<close>

function scan_loop :: "'b scan_state \<Rightarrow> 'b scan_state" where
  "scan_loop s =
     (if scan_guard s then
        (if fst (scan_body s) then scan_loop (snd (scan_body s)) else snd (scan_body s))
      else s)"
  by pat_completeness auto
termination
  by (relation "measure (\<lambda>s. MAX_NOF_SUBDEVICES - subdevice_counter s)")
     (auto simp: scan_guard_def scan_body_def Let_def split_beta split: if_splits)

declare scan_loop.simps [simp del]

text \<open>
  \<^verbatim>\<open>scan_for_subdevices\<close>: returns the number of subdevices added, and the device.
\<close>

definition scan_for_subdevices :: "'b flink_device \<Rightarrow> nat \<times> 'b flink_device" where
  "scan_for_subdevices fdev0 =
     (let (sz, fdev1) = bus_address_space_size fdev0;
          s = scan_loop \<lparr>dev = fdev1, subdevice_counter = 0,
                         current_address = 0, last_address = 0 + sz - 1\<rparr>
      in (subdevice_counter s, dev s))"

section \<open>Sessions and user space\<close>

text \<open>
  \<^verbatim>\<open>struct flink_private_data\<close>. The pointer \<^verbatim>\<open>fdev\<close> of the C structure is not a
  field here: the functions below take the device it points to as an argument
  (as an option where the C code tests the pointer against NULL).
\<close>

record flink_private_data =
  current_subdevice :: "flink_subdevice option"

text \<open>The containers of the ioctl calls.\<close>

type_synonym uaddr = nat

record ioctl_bit_container_t =
  offset_bc :: u32
  bit_bc :: u8
  value_bc :: u8
  subdevice_bc :: u8

record ioctl_container_t =
  subdevice_rw :: u8
  offset_rw :: u32
  size_rw :: u8
  data_rw :: uaddr

text \<open>
  User memory holds one object at an address; an address with no object faults.
  \<^verbatim>\<open>copy_from_user\<close> and \<^verbatim>\<open>copy_to_user\<close> return the number of bytes they
  could not copy; here a copy is None when that number is not 0. Address 0 is NULL.
\<close>

datatype uobj =
    UByte u8
  | UHalf u16
  | UWord u32
  | UContainer ioctl_container_t
  | UBitContainer ioctl_bit_container_t

type_synonym user_space = "uaddr \<Rightarrow> uobj option"

definition copy_from_user_u8 :: "user_space \<Rightarrow> uaddr \<Rightarrow> u8 option" where
  "copy_from_user_u8 us a = (case us a of Some (UByte v) \<Rightarrow> Some v | _ \<Rightarrow> None)"

definition copy_from_user_u16 :: "user_space \<Rightarrow> uaddr \<Rightarrow> u16 option" where
  "copy_from_user_u16 us a = (case us a of Some (UHalf v) \<Rightarrow> Some v | _ \<Rightarrow> None)"

definition copy_from_user_u32 :: "user_space \<Rightarrow> uaddr \<Rightarrow> u32 option" where
  "copy_from_user_u32 us a = (case us a of Some (UWord v) \<Rightarrow> Some v | _ \<Rightarrow> None)"

definition copy_from_user_container :: "user_space \<Rightarrow> uaddr \<Rightarrow> ioctl_container_t option" where
  "copy_from_user_container us a = (case us a of Some (UContainer c) \<Rightarrow> Some c | _ \<Rightarrow> None)"

definition copy_from_user_bit_container ::
  "user_space \<Rightarrow> uaddr \<Rightarrow> ioctl_bit_container_t option" where
  "copy_from_user_bit_container us a =
     (case us a of Some (UBitContainer c) \<Rightarrow> Some c | _ \<Rightarrow> None)"

definition copy_to_user :: "user_space \<Rightarrow> uaddr \<Rightarrow> uobj \<Rightarrow> user_space option" where
  "copy_to_user us a obj = (case us a of None \<Rightarrow> None | Some _ \<Rightarrow> Some (us(a := Some obj)))"

text \<open>
  Return values: \<open>Inl e\<close> is \<^verbatim>\<open>return -e\<close> (\<^verbatim>\<open>UNKOWN_ERROR\<close> is the constant -1 of
  flink.h), \<open>Inr n\<close> is the return of the number \<open>n\<close>.
\<close>

datatype errno = UNKOWN_ERROR | EPERM | ENOMEM | EINVAL

type_synonym retval = "errno + int"

text \<open>
  What a kernel function does: it returns, or it dereferences a NULL pointer, or it
  shifts an \<^verbatim>\<open>int\<close> by 32 bits or more (which C leaves undefined).
\<close>

datatype 'a kernel_result = Returns 'a | NullPointerDereference | UndefinedShift

section \<open>File operations\<close>

text \<open>
  \<^verbatim>\<open>flink_select_subdevice\<close>: \<open>fdev_ptr\<close> is \<^verbatim>\<open>pdata->fdev\<close>, \<open>pdata\<close> is
  \<^verbatim>\<open>f->private_data\<close>.
\<close>

definition flink_select_subdevice ::
  "'b flink_device option \<Rightarrow> flink_private_data option \<Rightarrow> u8 \<Rightarrow> bool
     \<Rightarrow> retval \<times> flink_private_data option" where
  "flink_select_subdevice fdev_ptr pdata subdevice excl =
     (case pdata of
        None \<Rightarrow> (Inl UNKOWN_ERROR, pdata)
      | Some p \<Rightarrow>
          (case fdev_ptr of
             None \<Rightarrow> (Inl UNKOWN_ERROR, pdata)
           | Some d \<Rightarrow>
               (Inr 0,
                Some (p\<lparr>current_subdevice :=
                          flink_get_subdevice_by_id (Some d) subdevice\<rparr>))))"

text \<open>
  \<^verbatim>\<open>flink_read\<close>: \<open>fdev\<close> is the parent of the selected subdevice, \<open>off\<close> is
  \<^verbatim>\<open>*offset\<close> (a \<^verbatim>\<open>loff_t\<close>, cut to 32 bits). Returns the number of bytes read.
\<close>

definition flink_read ::
  "'b flink_device \<Rightarrow> flink_private_data option \<Rightarrow> user_space \<Rightarrow> uaddr \<Rightarrow> nat \<Rightarrow> int
     \<Rightarrow> int \<times> 'b flink_device \<times> user_space" where
  "flink_read fdev pdata us data sz off =
     (case pdata of
        None \<Rightarrow> (0, fdev, us)
      | Some p \<Rightarrow>
          (case current_subdevice p of
             None \<Rightarrow> (0, fdev, us)
           | Some subdev \<Rightarrow>
               (let roffset = (word_of_int off :: u32)
                in if roffset > mem_size subdev then (0, fdev, us)
                   else if sz = 1 then
                     (let (rdata, fdev1) = bus_read8 fdev (base_addr subdev + roffset)
                      in case copy_to_user us data (UByte rdata) of
                           None \<Rightarrow> (0, fdev1, us)
                         | Some us' \<Rightarrow> (1, fdev1, us'))
                   else if sz = 2 then
                     (let (rdata, fdev1) = bus_read16 fdev (base_addr subdev + roffset)
                      in case copy_to_user us data (UHalf rdata) of
                           None \<Rightarrow> (0, fdev1, us)
                         | Some us' \<Rightarrow> (2, fdev1, us'))
                   else if sz = 4 then
                     (let (rdata, fdev1) = bus_read32 fdev (base_addr subdev + roffset)
                      in case copy_to_user us data (UWord rdata) of
                           None \<Rightarrow> (0, fdev1, us)
                         | Some us' \<Rightarrow> (4, fdev1, us'))
                   else (0, fdev, us))))"

text \<open>\<^verbatim>\<open>flink_write\<close>. Returns the number of bytes written.\<close>

definition flink_write ::
  "'b flink_device \<Rightarrow> flink_private_data option \<Rightarrow> user_space \<Rightarrow> uaddr \<Rightarrow> nat \<Rightarrow> int
     \<Rightarrow> int \<times> 'b flink_device" where
  "flink_write fdev pdata us data sz off =
     (case pdata of
        None \<Rightarrow> (0, fdev)
      | Some p \<Rightarrow>
          (case current_subdevice p of
             None \<Rightarrow> (0, fdev)
           | Some subdev \<Rightarrow>
               (let woffset = (word_of_int off :: u32)
                in if woffset > mem_size subdev then (0, fdev)
                   else if sz = 1 then
                     (case copy_from_user_u8 us data of
                        None \<Rightarrow> (0, fdev)
                      | Some wdata \<Rightarrow>
                          (1, bus_write8 fdev (base_addr subdev + woffset) wdata))
                   else if sz = 2 then
                     (case copy_from_user_u16 us data of
                        None \<Rightarrow> (0, fdev)
                      | Some wdata \<Rightarrow>
                          (2, bus_write16 fdev (base_addr subdev + woffset) wdata))
                   else if sz = 4 then
                     (case copy_from_user_u32 us data of
                        None \<Rightarrow> (0, fdev)
                      | Some wdata \<Rightarrow>
                          (4, bus_write32 fdev (base_addr subdev + woffset) wdata))
                   else (0, fdev))))"

section \<open>flink_ioctl\<close>

text \<open>
  Each definition is one \<^verbatim>\<open>case\<close> of the \<^verbatim>\<open>switch\<close> in \<^verbatim>\<open>flink_ioctl\<close>, up to
  the return of the function. \<open>fdev\<close> is \<^verbatim>\<open>pdata->fdev\<close> (the session is bound to a
  device), \<open>arg\<close> is the user address passed to the call.
\<close>

text \<open>
  \<^verbatim>\<open>case SELECT_SUBDEVICE\<close> and \<^verbatim>\<open>case SELECT_SUBDEVICE_EXCL\<close>; here the device
  pointer and the private data are options, as in \<^verbatim>\<open>flink_select_subdevice\<close>.
\<close>

definition ioctl_SELECT_SUBDEVICE ::
  "'b flink_device option \<Rightarrow> flink_private_data option \<Rightarrow> user_space \<Rightarrow> uaddr
     \<Rightarrow> retval \<times> flink_private_data option" where
  "ioctl_SELECT_SUBDEVICE fdev_ptr pdata us arg =
     (case copy_from_user_u8 us arg of
        None \<Rightarrow> (Inl EINVAL, pdata)
      | Some ident \<Rightarrow> flink_select_subdevice fdev_ptr pdata ident False)"

definition ioctl_SELECT_SUBDEVICE_EXCL ::
  "'b flink_device option \<Rightarrow> flink_private_data option \<Rightarrow> user_space \<Rightarrow> uaddr
     \<Rightarrow> retval \<times> flink_private_data option" where
  "ioctl_SELECT_SUBDEVICE_EXCL fdev_ptr pdata us arg =
     (case copy_from_user_u8 us arg of
        None \<Rightarrow> (Inl EINVAL, pdata)
      | Some ident \<Rightarrow> flink_select_subdevice fdev_ptr pdata ident True)"

text \<open>\<^verbatim>\<open>case READ_SINGLE_BIT\<close>.\<close>

definition ioctl_READ_SINGLE_BIT ::
  "'b flink_device \<Rightarrow> flink_private_data \<Rightarrow> user_space \<Rightarrow> uaddr
     \<Rightarrow> (retval \<times> 'b flink_device \<times> user_space) kernel_result" where
  "ioctl_READ_SINGLE_BIT fdev pdata us arg =
     (case copy_from_user_bit_container us arg of
        None \<Rightarrow> Returns (Inl EINVAL, fdev, us)
      | Some rwbit_container \<Rightarrow>
          (case current_subdevice pdata of
             None \<Rightarrow> NullPointerDereference
           | Some cur \<Rightarrow>
               (let (temp, fdev1) = bus_read32 fdev (base_addr cur + offset_bc rwbit_container)
                in if 32 \<le> unat (bit_bc rwbit_container) then UndefinedShift
                   else
                     (let rwbit_container' = rwbit_container
                            \<lparr>value_bc :=
                               (if temp AND push_bit (unat (bit_bc rwbit_container)) 1 \<noteq> 0
                                then 1 else 0)\<rparr>
                      in case copy_to_user us arg (UBitContainer rwbit_container') of
                           None \<Rightarrow> Returns (Inl EINVAL, fdev1, us)
                         | Some us' \<Rightarrow> Returns (Inr 0, fdev1, us')))))"

text \<open>\<^verbatim>\<open>case WRITE_SINGLE_BIT\<close>.\<close>

definition ioctl_WRITE_SINGLE_BIT ::
  "'b flink_device \<Rightarrow> flink_private_data \<Rightarrow> user_space \<Rightarrow> uaddr
     \<Rightarrow> (retval \<times> 'b flink_device) kernel_result" where
  "ioctl_WRITE_SINGLE_BIT fdev pdata us arg =
     (case copy_from_user_bit_container us arg of
        None \<Rightarrow> Returns (Inl EINVAL, fdev)
      | Some rwbit_container \<Rightarrow>
          (case current_subdevice pdata of
             None \<Rightarrow> NullPointerDereference
           | Some cur \<Rightarrow>
               (let (temp, fdev1) = bus_read32 fdev (base_addr cur + offset_bc rwbit_container)
                in if 32 \<le> unat (bit_bc rwbit_container) then UndefinedShift
                   else
                     (let temp' =
                            (if value_bc rwbit_container \<noteq> 0
                             then temp OR push_bit (unat (bit_bc rwbit_container)) 1
                             else temp AND NOT (push_bit (unat (bit_bc rwbit_container)) 1))
                      in Returns
                           (Inr 0,
                            bus_write32 fdev1 (base_addr cur + offset_bc rwbit_container)
                              temp')))))"

text \<open>\<^verbatim>\<open>case SELECT_AND_READ\<close>.\<close>

definition ioctl_SELECT_AND_READ ::
  "'b flink_device \<Rightarrow> user_space \<Rightarrow> uaddr \<Rightarrow> retval \<times> 'b flink_device \<times> user_space" where
  "ioctl_SELECT_AND_READ fdev us arg =
     (case copy_from_user_container us arg of
        None \<Rightarrow> (Inl EINVAL, fdev, us)
      | Some rw_container \<Rightarrow>
          if data_rw rw_container = 0 then (Inl EINVAL, fdev, us)
          else
            (case flink_get_subdevice_by_id (Some fdev) (subdevice_rw rw_container) of
               None \<Rightarrow> (Inl EINVAL, fdev, us)
             | Some src \<Rightarrow>
                 if offset_rw rw_container > mem_size src then (Inl EINVAL, fdev, us)
                 else if size_rw rw_container = 1 then
                   (let (rdata, fdev1) =
                          bus_read8 fdev (base_addr src + offset_rw rw_container)
                    in case copy_to_user us (data_rw rw_container) (UByte rdata) of
                         None \<Rightarrow> (Inr 0, fdev1, us)
                       | Some us' \<Rightarrow> (Inr 1, fdev1, us'))
                 else if size_rw rw_container = 2 then
                   (let (rdata, fdev1) =
                          bus_read16 fdev (base_addr src + offset_rw rw_container)
                    in case copy_to_user us (data_rw rw_container) (UHalf rdata) of
                         None \<Rightarrow> (Inr 0, fdev1, us)
                       | Some us' \<Rightarrow> (Inr 2, fdev1, us'))
                 else if size_rw rw_container = 4 then
                   (let (rdata, fdev1) =
                          bus_read32 fdev (base_addr src + offset_rw rw_container)
                    in case copy_to_user us (data_rw rw_container) (UWord rdata) of
                         None \<Rightarrow> (Inr 0, fdev1, us)
                       | Some us' \<Rightarrow> (Inr 4, fdev1, us'))
                 else (Inl EINVAL, fdev, us)))"

text \<open>
  \<^verbatim>\<open>case REGISTER_IRQ\<close>, the walk over \<^verbatim>\<open>hw_irq_data\<close>: \<open>cur\<close> is the calling task
  (\<^verbatim>\<open>get_current()\<close>), \<open>kzalloc_ok\<close> tells whether the allocation of the new
  \<^verbatim>\<open>flink_process_data\<close> succeeds. When no entry has the requested number the loop
  ends and the function returns 0. On success the \<^verbatim>\<open>u32\<close> signal number is returned
  as a \<^verbatim>\<open>long\<close>, taken to have 64 bits, so it keeps its unsigned value.
\<close>

fun register_irq_loop ::
  "u32 \<Rightarrow> task_struct \<Rightarrow> bool \<Rightarrow> u32 \<Rightarrow> flink_irq_data list
     \<Rightarrow> retval \<times> flink_irq_data list" where
  "register_irq_loop sig_offset cur kzalloc_ok requested_irq_nr [] = (Inr 0, [])"
| "register_irq_loop sig_offset cur kzalloc_ok requested_irq_nr (hwirq # rest) =
     (if irq_nr hwirq = requested_irq_nr then
        (case find (\<lambda>fsignal. pid (user_task fsignal) = pid cur)
                (flink_process_data_list hwirq) of
           Some fsignal \<Rightarrow> (Inl EINVAL, hwirq # rest)
         | None \<Rightarrow>
             if \<not> kzalloc_ok then (Inl ENOMEM, hwirq # rest)
             else
               (let fsignal = \<lparr>user_task = cur\<rparr>;
                    hwirq1 = hwirq\<lparr>signal_nr_with_offset := sig_offset + irq_nr hwirq\<rparr>;
                    hwirq2 = hwirq1\<lparr>flink_process_data_list :=
                                      fsignal # flink_process_data_list hwirq1\<rparr>;
                    hwirq3 = hwirq2\<lparr>signal_count := signal_count hwirq2 + 1\<rparr>
                in (Inr (uint (signal_nr_with_offset hwirq3)), hwirq3 # rest)))
      else
        (case register_irq_loop sig_offset cur kzalloc_ok requested_irq_nr rest of
           (r, rest') \<Rightarrow> (r, hwirq # rest')))"

text \<open>\<^verbatim>\<open>case REGISTER_IRQ\<close>.\<close>

definition ioctl_REGISTER_IRQ ::
  "'b flink_device \<Rightarrow> user_space \<Rightarrow> task_struct \<Rightarrow> bool \<Rightarrow> uaddr
     \<Rightarrow> retval \<times> 'b flink_device" where
  "ioctl_REGISTER_IRQ fdev us cur kzalloc_ok arg =
     (if nof_irqs fdev = 0 then (Inl EPERM, fdev)
      else
        (case copy_from_user_container us arg of
           None \<Rightarrow> (Inl EINVAL, fdev)
         | Some rw_container \<Rightarrow>
             if size_rw rw_container \<noteq> 4 then (Inl EINVAL, fdev)
             else
               (case copy_from_user_u32 us (data_rw rw_container) of
                  None \<Rightarrow> (Inl EINVAL, fdev)
                | Some requested_irq_nr \<Rightarrow>
                    if requested_irq_nr \<ge> nof_irqs fdev then (Inl EINVAL, fdev)
                    else
                      (case register_irq_loop (signal_offset fdev) cur kzalloc_ok
                              requested_irq_nr (hw_irq_data fdev) of
                         (r, irqs) \<Rightarrow> (r, fdev\<lparr>hw_irq_data := irqs\<rparr>)))))"

text \<open>\<^verbatim>\<open>list_del\<close> of the entry at which the search loop stopped: the first that matches.\<close>

fun list_del_first :: "('a \<Rightarrow> bool) \<Rightarrow> 'a list \<Rightarrow> 'a list" where
  "list_del_first P [] = []"
| "list_del_first P (x # xs) = (if P x then xs else x # list_del_first P xs)"

text \<open>\<^verbatim>\<open>case UNREGISTER_IRQ\<close>, the walk over \<^verbatim>\<open>hw_irq_data\<close>.\<close>

fun unregister_irq_loop ::
  "task_struct \<Rightarrow> u32 \<Rightarrow> flink_irq_data list \<Rightarrow> retval \<times> flink_irq_data list" where
  "unregister_irq_loop cur requested_irq_nr [] = (Inr 0, [])"
| "unregister_irq_loop cur requested_irq_nr (hwirq # rest) =
     (if irq_nr hwirq = requested_irq_nr then
        if signal_count hwirq = 0 then (Inl EINVAL, hwirq # rest)
        else
          (case find (\<lambda>fsignal. pid (user_task fsignal) = pid cur)
                  (flink_process_data_list hwirq) of
             Some fsignal \<Rightarrow>
               (Inr 0,
                hwirq\<lparr>flink_process_data_list :=
                        list_del_first (\<lambda>fsignal. pid (user_task fsignal) = pid cur)
                          (flink_process_data_list hwirq)\<rparr> # rest)
           | None \<Rightarrow> (Inl EINVAL, hwirq # rest))
      else
        (case unregister_irq_loop cur requested_irq_nr rest of
           (r, rest') \<Rightarrow> (r, hwirq # rest')))"

text \<open>\<^verbatim>\<open>case UNREGISTER_IRQ\<close>.\<close>

definition ioctl_UNREGISTER_IRQ ::
  "'b flink_device \<Rightarrow> user_space \<Rightarrow> task_struct \<Rightarrow> uaddr \<Rightarrow> retval \<times> 'b flink_device" where
  "ioctl_UNREGISTER_IRQ fdev us cur arg =
     (if nof_irqs fdev = 0 then (Inl EPERM, fdev)
      else
        (case copy_from_user_container us arg of
           None \<Rightarrow> (Inl EINVAL, fdev)
         | Some rw_container \<Rightarrow>
             if size_rw rw_container \<noteq> 4 then (Inl EINVAL, fdev)
             else
               (case copy_from_user_u32 us (data_rw rw_container) of
                  None \<Rightarrow> (Inl EINVAL, fdev)
                | Some requested_irq_nr \<Rightarrow>
                    if requested_irq_nr \<ge> nof_irqs fdev then (Inl EINVAL, fdev)
                    else
                      (case unregister_irq_loop cur requested_irq_nr (hw_irq_data fdev) of
                         (r, irqs) \<Rightarrow> (r, fdev\<lparr>hw_irq_data := irqs\<rparr>)))))"

section \<open>Device initialisation\<close>

text \<open>
  The loop of \<^verbatim>\<open>flink_device_init_irq\<close> from index \<open>i\<close> on, with \<open>n\<close> indices left.
  \<open>kzalloc_ok i\<close> tells whether the allocation for index \<open>i\<close> succeeds,
  \<open>request_irq_ok nr\<close> whether \<^verbatim>\<open>request_threaded_irq\<close> accepts the number. On a failure
  the function returns with the list built so far.
\<close>

fun init_irq_loop ::
  "(nat \<Rightarrow> bool) \<Rightarrow> (u32 \<Rightarrow> bool) \<Rightarrow> u32 \<Rightarrow> nat \<Rightarrow> nat \<Rightarrow> flink_irq_data list
     \<Rightarrow> flink_irq_data list" where
  "init_irq_loop kzalloc_ok request_irq_ok irq_off 0 i irqs = irqs"
| "init_irq_loop kzalloc_ok request_irq_ok irq_off (Suc n) i irqs =
     (if \<not> kzalloc_ok i then irqs
      else
        (let irq_data =
               \<lparr>flink_process_data_list = [], irq_nr = of_nat i, signal_count = 0,
                signal_nr_with_offset = 0, irq_nr_with_offset = irq_off + of_nat i\<rparr>;
             irqs' = irq_data # irqs
         in if \<not> request_irq_ok (irq_nr_with_offset irq_data) then irqs'
            else init_irq_loop kzalloc_ok request_irq_ok irq_off n (Suc i) irqs'))"

text \<open>
  \<^verbatim>\<open>flink_device_init_irq\<close>. The bus data, which the bus module stores in the device
  after this call, is an argument here. On a failure in the loop the C code sets its
  parameter \<^verbatim>\<open>nof_irq\<close> to 0 and returns: the field \<open>nof_irqs\<close> keeps its value.
\<close>

definition flink_device_init_irq ::
  "'b flink_bus_ops \<Rightarrow> 'b \<Rightarrow> (nat \<Rightarrow> bool) \<Rightarrow> (u32 \<Rightarrow> bool) \<Rightarrow> u32 \<Rightarrow> u32 \<Rightarrow> u32
     \<Rightarrow> 'b flink_device" where
  "flink_device_init_irq ops bdata kzalloc_ok request_irq_ok nof_irq irq_off sig_off =
     \<lparr>id_dev = 0, nof_subdevices = 0, subdevices = [], bus_ops = ops, bus_data = bdata,
      hw_irq_data =
        init_irq_loop kzalloc_ok request_irq_ok irq_off (unat nof_irq) 0 [],
      nof_irqs = nof_irq, irq_offset = irq_off, signal_offset = sig_off, bus_log = []\<rparr>"

text \<open>\<^verbatim>\<open>flink_device_init\<close>.\<close>

definition flink_device_init :: "'b flink_bus_ops \<Rightarrow> 'b \<Rightarrow> 'b flink_device" where
  "flink_device_init ops bdata =
     flink_device_init_irq ops bdata (\<lambda>i. True) (\<lambda>nr. True) 0 0 0"

section \<open>The AXI bus module (zynq/flink_axi.c)\<close>

text \<open>
  \<^verbatim>\<open>struct flink_axi_bus_data\<close> (a pointer that is not NULL): \<open>io8\<close>, \<open>io16\<close> and
  \<open>io32\<close> are what \<^verbatim>\<open>ioread8\<close>, \<^verbatim>\<open>ioread16\<close> and \<^verbatim>\<open>ioread32\<close> return at
  \<^verbatim>\<open>base + addr\<close>, \<open>size_axi\<close> is the field \<^verbatim>\<open>size\<close>.
\<close>

record flink_axi_bus_data =
  io8 :: "u32 \<Rightarrow> u8"
  io16 :: "u32 \<Rightarrow> u16"
  io32 :: "u32 \<Rightarrow> u32"
  size_axi :: nat

definition flink_check_offset :: "flink_axi_bus_data \<Rightarrow> u32 \<Rightarrow> bool" where
  "flink_check_offset d offset \<longleftrightarrow> size_axi d > unat offset"

definition flink_axi_read8 :: "flink_axi_bus_data \<Rightarrow> u32 \<Rightarrow> u8" where
  "flink_axi_read8 d addr = (if flink_check_offset d addr then io8 d addr else 0)"

definition flink_axi_read16 :: "flink_axi_bus_data \<Rightarrow> u32 \<Rightarrow> u16" where
  "flink_axi_read16 d addr = (if flink_check_offset d addr then io16 d addr else 0)"

definition flink_axi_read32 :: "flink_axi_bus_data \<Rightarrow> u32 \<Rightarrow> u32" where
  "flink_axi_read32 d addr = (if flink_check_offset d addr then io32 d addr else 0)"

definition flink_axi_write8 :: "flink_axi_bus_data \<Rightarrow> u32 \<Rightarrow> u8 \<Rightarrow> flink_axi_bus_data" where
  "flink_axi_write8 d addr val =
     (if flink_check_offset d addr then d\<lparr>io8 := (io8 d)(addr := val)\<rparr> else d)"

definition flink_axi_write16 :: "flink_axi_bus_data \<Rightarrow> u32 \<Rightarrow> u16 \<Rightarrow> flink_axi_bus_data" where
  "flink_axi_write16 d addr val =
     (if flink_check_offset d addr then d\<lparr>io16 := (io16 d)(addr := val)\<rparr> else d)"

definition flink_axi_write32 :: "flink_axi_bus_data \<Rightarrow> u32 \<Rightarrow> u32 \<Rightarrow> flink_axi_bus_data" where
  "flink_axi_write32 d addr val =
     (if flink_check_offset d addr then d\<lparr>io32 := (io32 d)(addr := val)\<rparr> else d)"

definition flink_axi_address_space_size :: "flink_axi_bus_data \<Rightarrow> u32" where
  "flink_axi_address_space_size d = of_nat (size_axi d)"

definition flink_axi_bus_ops :: "flink_axi_bus_data flink_bus_ops" where
  "flink_axi_bus_ops =
     \<lparr>read8 = flink_axi_read8, read16 = flink_axi_read16, read32 = flink_axi_read32,
      write8 = flink_axi_write8, write16 = flink_axi_write16, write32 = flink_axi_write32,
      address_space_size = flink_axi_address_space_size\<rparr>"

section \<open>Notions used in the statements\<close>

text \<open>The word the bus shows at an offset from the current address of the scan.\<close>

definition header_word :: "'b scan_state \<Rightarrow> u32 \<Rightarrow> u32" where
  "header_word s off = read32 (bus_ops (dev s)) (bus_data (dev s)) (current_address s + off)"

text \<open>The subdevice the header at the current address describes.\<close>

definition scanned_subdevice :: "'b scan_state \<Rightarrow> flink_subdevice" where
  "scanned_subdevice s =
     \<lparr>id_subdev = nof_subdevices (dev s),
      function_id = ucast (drop_bit 16 (header_word s SUBDEV_FUNCTION_OFFSET)),
      sub_function_id = ucast (drop_bit 8 (header_word s SUBDEV_FUNCTION_OFFSET) AND 0xFF),
      function_version = ucast (header_word s SUBDEV_FUNCTION_OFFSET AND 0xFF),
      base_addr = current_address s,
      mem_size = header_word s SUBDEV_SIZE_OFFSET,
      nof_channels = header_word s SUBDEV_NOFCHANNELS_OFFSET,
      unique_id = header_word s SUBDEV_UNIQUE_ID_OFFSET\<rparr>"

text \<open>The total memory length an info subdevice declares, read through \<open>rd\<close>.\<close>

definition info_total_mem_size :: "(u32 \<Rightarrow> u32) \<Rightarrow> flink_subdevice \<Rightarrow> u32" where
  "info_total_mem_size rd sd = rd (base_addr sd + MAIN_HEADER_SIZE + SUB_HEADER_SIZE)"

text \<open>
  Every subdevice of the list, taken in scan order, starts below the last address \<open>la\<close>
  in effect when its header is read and is larger than its headers; an info subdevice
  sets the last address for the subdevices after it.
\<close>

fun starts_below_last :: "(u32 \<Rightarrow> u32) \<Rightarrow> u32 \<Rightarrow> flink_subdevice list \<Rightarrow> bool" where
  "starts_below_last rd la [] = True"
| "starts_below_last rd la (sd # sds) =
     (base_addr sd < la \<and> 32 < mem_size sd \<and>
      starts_below_last rd
        (if function_id sd = INFO_FUNCTION_ID then info_total_mem_size rd sd - 1 else la) sds)"

text \<open>
  The same with the bound as a length: the byte after the base address of every
  subdevice lies inside the bound in effect when its header is read.
\<close>

fun starts_inside_bound :: "(u32 \<Rightarrow> u32) \<Rightarrow> u32 \<Rightarrow> flink_subdevice list \<Rightarrow> bool" where
  "starts_inside_bound rd bound [] = True"
| "starts_inside_bound rd bound (sd # sds) =
     (unat (base_addr sd) + 1 < unat bound \<and> 32 < mem_size sd \<and>
      starts_inside_bound rd
        (if function_id sd = INFO_FUNCTION_ID then info_total_mem_size rd sd else bound) sds)"

text \<open>The subdevices a scan added to the device, in scan order.\<close>

definition new_subdevices :: "'b flink_device \<Rightarrow> 'b flink_device \<Rightarrow> flink_subdevice list" where
  "new_subdevices fdev0 fdev' =
     rev (take (length (subdevices fdev') - length (subdevices fdev0)) (subdevices fdev'))"

section \<open>Example devices\<close>

text \<open>A device on the AXI bus, initialised without interrupts, not yet scanned.\<close>

definition axi_device :: "(u32 \<Rightarrow> u32) \<Rightarrow> nat \<Rightarrow> flink_axi_bus_data flink_device" where
  "axi_device regs n =
     flink_device_init flink_axi_bus_ops
       \<lparr>io8 = (\<lambda>a. 0), io16 = (\<lambda>a. 0), io32 = regs, size_axi = n\<rparr>"

text \<open>A bus module that reads a 32 bit word without a test of the offset.\<close>

definition unchecked_bus_ops :: "flink_axi_bus_data flink_bus_ops" where
  "unchecked_bus_ops = flink_axi_bus_ops\<lparr>read32 := io32\<rparr>"

definition unchecked_device :: "(u32 \<Rightarrow> u32) \<Rightarrow> nat \<Rightarrow> flink_axi_bus_data flink_device" where
  "unchecked_device regs n =
     flink_device_init unchecked_bus_ops
       \<lparr>io8 = (\<lambda>a. 0), io16 = (\<lambda>a. 0), io32 = regs, size_axi = n\<rparr>"

text \<open>One subdevice of 48 bytes with function 0x0001, then zeros.\<close>

definition chain_single :: "u32 \<Rightarrow> u32" where
  "chain_single a =
     (if a = 0 then 0x00010203 else if a = 4 then 48 else if a = 8 then 1
      else if a = 12 then 0xAAAA else 0)"

text \<open>One header that declares 1000 bytes.\<close>

definition chain_oversize :: "u32 \<Rightarrow> u32" where
  "chain_oversize a =
     (if a = 0 then 0x00010000 else if a = 4 then 1000 else if a = 8 then 1
      else if a = 12 then 0xBBBB else 0)"

text \<open>
  An info subdevice of 48 bytes that declares the total length \<open>len\<close>, then a
  subdevice of 64 bytes with function 0x0001 at address 48, then zeros.
\<close>

definition chain_info :: "u32 \<Rightarrow> u32 \<Rightarrow> u32" where
  "chain_info len a =
     (if a = 0 then 0x00000000 else if a = 4 then 48 else if a = 8 then 1
      else if a = 12 then 0x1111 else if a = 32 then len
      else if a = 48 then 0x00010000 else if a = 52 then 64 else if a = 56 then 2
      else if a = 60 then 0x2222 else 0)"

text \<open>The state of the scan of \<open>chain_single\<close> in 48 bytes when the loop is entered.\<close>

definition scan_start_single :: "flink_axi_bus_data scan_state" where
  "scan_start_single =
     \<lparr>dev = axi_device chain_single 48, subdevice_counter = 0,
      current_address = 0, last_address = 47\<rparr>"

section \<open>Notions used in the statements on interrupts and sessions\<close>

text \<open>The entry of \<^verbatim>\<open>hw_irq_data\<close> the walks stop at: the first with the number.\<close>

definition irq_line :: "'b flink_device \<Rightarrow> u32 \<Rightarrow> flink_irq_data option" where
  "irq_line fdev nr = find (\<lambda>hwirq. irq_nr hwirq = nr) (hw_irq_data fdev)"

text \<open>
  The interrupt number a register or unregister call reads from user space: a container
  at \<open>arg\<close> with size 4 whose data pointer leads to a 32 bit word. None when a copy
  fails or the size is not 4.
\<close>

definition irq_request :: "user_space \<Rightarrow> uaddr \<Rightarrow> u32 option" where
  "irq_request us arg =
     (case copy_from_user_container us arg of
        None \<Rightarrow> None
      | Some rw_container \<Rightarrow>
          if size_rw rw_container \<noteq> 4 then None
          else copy_from_user_u32 us (data_rw rw_container))"

text \<open>The task with the pid is among the subscribers of the entry.\<close>

definition subscribed :: "task_struct \<Rightarrow> flink_irq_data \<Rightarrow> bool" where
  "subscribed cur hwirq \<longleftrightarrow>
     find (\<lambda>fsignal. pid (user_task fsignal) = pid cur) (flink_process_data_list hwirq)
       \<noteq> None"

section \<open>Example device with interrupts, example user space\<close>

text \<open>
  A device on the AXI bus with 2 interrupts, interrupt offset 55 and signal offset 34,
  whose initialisation met no failure.
\<close>

definition irq_device :: "flink_axi_bus_data flink_device" where
  "irq_device =
     flink_device_init_irq flink_axi_bus_ops
       \<lparr>io8 = (\<lambda>a. 0), io16 = (\<lambda>a. 0), io32 = chain_single, size_axi = 48\<rparr>
       (\<lambda>i. True) (\<lambda>nr. True) 2 55 34"

text \<open>User memory with a request for interrupt \<open>nr\<close> at address 100.\<close>

definition user_irq_request :: "u32 \<Rightarrow> user_space" where
  "user_irq_request nr =
     (\<lambda>a. if a = 100 then
             Some (UContainer \<lparr>subdevice_rw = 0, offset_rw = 0, size_rw = 4, data_rw = 200\<rparr>)
           else if a = 200 then Some (UWord nr)
           else None)"

definition task_a :: task_struct where
  "task_a = \<lparr>pid = 4711\<rparr>"

text \<open>The AXI device with the single subdevice of 48 bytes, after the scan.\<close>

definition scanned_device :: "flink_axi_bus_data flink_device" where
  "scanned_device = snd (scan_for_subdevices (axi_device chain_single 48))"

text \<open>
  User memory with a request at address 100 to read \<open>n\<close> bytes at offset \<open>off\<close> of
  subdevice \<open>sd\<close> into address 200.
\<close>

definition user_read_request :: "u8 \<Rightarrow> u32 \<Rightarrow> u8 \<Rightarrow> user_space" where
  "user_read_request sd off n =
     (\<lambda>a. if a = 100 then
             Some (UContainer \<lparr>subdevice_rw = sd, offset_rw = off, size_rw = n, data_rw = 200\<rparr>)
           else if a = 200 then Some (UWord 0)
           else None)"

text \<open>User memory with a bit container at address 100.\<close>

definition user_bit_request :: "u32 \<Rightarrow> u8 \<Rightarrow> u8 \<Rightarrow> user_space" where
  "user_bit_request off b v =
     (\<lambda>a. if a = 100 then
             Some (UBitContainer \<lparr>offset_bc = off, bit_bc = b, value_bc = v, subdevice_bc = 0\<rparr>)
           else None)"

text \<open>A session with no subdevice selected, as \<^verbatim>\<open>flink_open\<close> leaves it.\<close>

definition fresh_session :: flink_private_data where
  "fresh_session = \<lparr>current_subdevice = None\<rparr>"

text \<open>The example device after task \<open>task_a\<close> registered for interrupt 1.\<close>

definition registered_device :: "flink_axi_bus_data flink_device" where
  "registered_device =
     snd (ioctl_REGISTER_IRQ irq_device (user_irq_request 1) task_a True 100)"

text \<open>The same device after the task unregistered from interrupt 1 again.\<close>

definition unregistered_device :: "flink_axi_bus_data flink_device" where
  "unregistered_device =
     snd (ioctl_UNREGISTER_IRQ registered_device (user_irq_request 1) task_a 100)"

text \<open>A session that selected subdevice 0 of the scanned device.\<close>

definition selected_session :: flink_private_data where
  "selected_session =
     \<lparr>current_subdevice = flink_get_subdevice_by_id (Some scanned_device) 0\<rparr>"

text \<open>
  A device on the AXI bus declared with 3 interrupts, interrupt offset 55 and signal
  offset 34, whose initialisation met a failure: \<^verbatim>\<open>request_threaded_irq\<close> refuses
  the number 56 of line 1. The loop returns there, with the entries of the lines 0 and 1
  in the table and none for line 2.
\<close>

definition partial_irq_device :: "flink_axi_bus_data flink_device" where
  "partial_irq_device =
     flink_device_init_irq flink_axi_bus_ops
       \<lparr>io8 = (\<lambda>a. 0), io16 = (\<lambda>a. 0), io32 = chain_single, size_axi = 48\<rparr>
       (\<lambda>i. True) (\<lambda>nr. nr \<noteq> 56) 3 55 34"

section \<open>Evaluation of the examples\<close>

lemmas axi_eval =
  axi_device_def unchecked_device_def unchecked_bus_ops_def flink_device_init_def
  flink_device_init_irq_def flink_axi_bus_ops_def flink_axi_read32_def flink_check_offset_def
  flink_axi_address_space_size_def chain_single_def chain_oversize_def chain_info_def

section \<open>The scanner: one pass of the loop\<close>

lemma scan_body_fst: "fst (scan_body s) \<longleftrightarrow> 32 < header_word s SUBDEV_SIZE_OFFSET"
  by (simp add: scan_body_def header_word_def bus_read32_def Let_def split_beta
      MAIN_HEADER_SIZE_def SUB_HEADER_SIZE_def)

lemma scan_body_break:
  "\<not> 32 < header_word s SUBDEV_SIZE_OFFSET \<Longrightarrow>
   snd (scan_body s) =
     s\<lparr>dev := (dev s)\<lparr>bus_log := bus_log (dev s) @
          [BusRead32 (current_address s + SUBDEV_FUNCTION_OFFSET),
           BusRead32 (current_address s + SUBDEV_SIZE_OFFSET)]\<rparr>\<rparr>"
  by (simp add: scan_body_def header_word_def bus_read32_def Let_def split_beta
      MAIN_HEADER_SIZE_def SUB_HEADER_SIZE_def)

lemma scan_body_continue:
  assumes "32 < header_word s SUBDEV_SIZE_OFFSET"
  shows "subdevices (dev (snd (scan_body s))) = scanned_subdevice s # subdevices (dev s)"
    and "current_address (snd (scan_body s)) =
           current_address s + header_word s SUBDEV_SIZE_OFFSET"
    and "subdevice_counter (snd (scan_body s)) = subdevice_counter s + 1"
    and "last_address (snd (scan_body s)) =
           (if function_id (scanned_subdevice s) = INFO_FUNCTION_ID
            then header_word s (MAIN_HEADER_SIZE + SUB_HEADER_SIZE) - 1 else last_address s)"
    and "bus_ops (dev (snd (scan_body s))) = bus_ops (dev s)"
    and "bus_data (dev (snd (scan_body s))) = bus_data (dev s)"
    and "nof_subdevices (dev (snd (scan_body s))) = nof_subdevices (dev s) + 1"
  using assms
  by (simp_all add: scan_body_def header_word_def scanned_subdevice_def bus_read32_def
      Let_def split_beta flink_subdevice_add_def flink_subdevice_init_def add.assoc
      MAIN_HEADER_SIZE_def SUB_HEADER_SIZE_def)

text \<open>
  Claim C5. In every pass of the scan loop the scanner reads the size word at the
  current address. When the word is greater than 32 (the two headers of 16 bytes) it
  adds the subdevice the header describes, with the current address as base address and
  the word as size, moves the current address on by the word and goes on with the scan.
  When the word is not greater than 32 (a size of 0 too) the scan ends there with the
  subdevices and the counter it had: the end is not an error.
\<close>

theorem scan_pass_materializes_iff_size_exceeds_headers:
  assumes "scan_guard s"
  shows "if MAIN_HEADER_SIZE + SUB_HEADER_SIZE < header_word s SUBDEV_SIZE_OFFSET
         then scan_loop s = scan_loop (snd (scan_body s)) \<and>
              subdevices (dev (snd (scan_body s))) = scanned_subdevice s # subdevices (dev s) \<and>
              base_addr (scanned_subdevice s) = current_address s \<and>
              mem_size (scanned_subdevice s) = header_word s SUBDEV_SIZE_OFFSET \<and>
              current_address (snd (scan_body s)) =
                current_address s + header_word s SUBDEV_SIZE_OFFSET \<and>
              subdevice_counter (snd (scan_body s)) = subdevice_counter s + 1
         else scan_loop s = snd (scan_body s) \<and>
              subdevices (dev (scan_loop s)) = subdevices (dev s) \<and>
              subdevice_counter (scan_loop s) = subdevice_counter s"
proof (cases "32 < header_word s SUBDEV_SIZE_OFFSET")
  case True
  with assms have "scan_loop s = scan_loop (snd (scan_body s))"
    by (subst scan_loop.simps) (simp add: scan_body_fst)
  with True show ?thesis
    by (simp add: scan_body_continue MAIN_HEADER_SIZE_def SUB_HEADER_SIZE_def
        scanned_subdevice_def)
next
  case False
  with assms have "scan_loop s = snd (scan_body s)"
    by (subst scan_loop.simps) (simp add: scan_body_fst)
  with False show ?thesis
    by (simp add: scan_body_break MAIN_HEADER_SIZE_def SUB_HEADER_SIZE_def)
qed

theorem scan_pass_single_header:
  "scan_guard scan_start_single \<and>
   header_word scan_start_single SUBDEV_SIZE_OFFSET = 48 \<and>
   subdevices (dev (snd (scan_body scan_start_single))) =
     [scanned_subdevice scan_start_single] \<and>
   base_addr (scanned_subdevice scan_start_single) = 0 \<and>
   current_address (snd (scan_body scan_start_single)) = 48"
proof -
  have g: "scan_guard scan_start_single"
    by (simp add: scan_guard_def scan_start_single_def MAX_NOF_SUBDEVICES_def)
  have h: "header_word scan_start_single SUBDEV_SIZE_OFFSET = 48"
    by (simp add: header_word_def scan_start_single_def axi_eval SUBDEV_SIZE_OFFSET_def)
  have d: "subdevices (dev scan_start_single) = []" "current_address scan_start_single = 0"
    by (simp_all add: scan_start_single_def axi_eval)
  from scan_pass_materializes_iff_size_exceeds_headers [OF g] g h d show ?thesis
    by (simp add: MAIN_HEADER_SIZE_def SUB_HEADER_SIZE_def)
qed

section \<open>The scanner: the whole loop\<close>

lemma scan_loop_new:
  "\<exists>new. subdevices (dev (scan_loop s)) = rev new @ subdevices (dev s) \<and>
         starts_below_last (read32 (bus_ops (dev s)) (bus_data (dev s))) (last_address s) new \<and>
         subdevice_counter (scan_loop s) = subdevice_counter s + length new \<and>
         bus_ops (dev (scan_loop s)) = bus_ops (dev s) \<and>
         bus_data (dev (scan_loop s)) = bus_data (dev s)"
proof (induction s rule: scan_loop.induct)
  case (1 s)
  show ?case
  proof (cases "scan_guard s")
    case False
    then have "scan_loop s = s" by (simp add: scan_loop.simps)
    then show ?thesis by simp
  next
    case guard: True
    show ?thesis
    proof (cases "32 < header_word s SUBDEV_SIZE_OFFSET")
      case False
      with guard have "scan_loop s = snd (scan_body s)"
        by (subst scan_loop.simps) (simp add: scan_body_fst)
      with False show ?thesis by (simp add: scan_body_break)
    next
      case big: True
      let ?s' = "snd (scan_body s)"
      let ?sd = "scanned_subdevice s"
      let ?rd = "read32 (bus_ops (dev s)) (bus_data (dev s))"
      from guard big have loop: "scan_loop s = scan_loop ?s'"
        by (subst scan_loop.simps) (simp add: scan_body_fst)
      from guard big "1.IH" obtain new where
        n1: "subdevices (dev (scan_loop ?s')) = rev new @ subdevices (dev ?s')" and
        n2: "starts_below_last (read32 (bus_ops (dev ?s')) (bus_data (dev ?s')))
               (last_address ?s') new" and
        n3: "subdevice_counter (scan_loop ?s') = subdevice_counter ?s' + length new" and
        n4: "bus_ops (dev (scan_loop ?s')) = bus_ops (dev ?s')" and
        n5: "bus_data (dev (scan_loop ?s')) = bus_data (dev ?s')"
        by (auto simp: scan_body_fst)
      have sd: "base_addr ?sd = current_address s"
        "mem_size ?sd = header_word s SUBDEV_SIZE_OFFSET"
        by (simp_all add: scanned_subdevice_def)
      have info: "info_total_mem_size ?rd ?sd = header_word s (MAIN_HEADER_SIZE + SUB_HEADER_SIZE)"
        by (simp add: info_total_mem_size_def header_word_def scanned_subdevice_def add.assoc)
      from guard have below: "current_address s < last_address s"
        by (simp add: scan_guard_def)
      have "starts_below_last ?rd (last_address s) (?sd # new)"
        using n2 big below sd info
        by (auto simp: scan_body_continue [OF big] split: if_splits)
      moreover have "subdevices (dev (scan_loop s)) = rev (?sd # new) @ subdevices (dev s)"
        using n1 loop by (simp add: scan_body_continue [OF big])
      moreover have "subdevice_counter (scan_loop s) = subdevice_counter s + length (?sd # new)"
        using n3 loop by (simp add: scan_body_continue [OF big])
      moreover have "bus_ops (dev (scan_loop s)) = bus_ops (dev s)"
        "bus_data (dev (scan_loop s)) = bus_data (dev s)"
        using n4 n5 loop by (simp_all add: scan_body_continue [OF big])
      ultimately show ?thesis by blast
    qed
  qed
qed

lemma scan_for_subdevices_new:
  "\<exists>new. subdevices (snd (scan_for_subdevices fdev0)) = rev new @ subdevices fdev0 \<and>
     starts_below_last (read32 (bus_ops fdev0) (bus_data fdev0))
        (address_space_size (bus_ops fdev0) (bus_data fdev0) - 1) new \<and>
     fst (scan_for_subdevices fdev0) = length new"
  using scan_loop_new [of "\<lparr>dev = snd (bus_address_space_size fdev0), subdevice_counter = 0,
      current_address = 0, last_address = 0 + fst (bus_address_space_size fdev0) - 1\<rparr>"]
  by (auto simp: scan_for_subdevices_def Let_def split_beta bus_address_space_size_def)

lemma new_subdevices_append:
  "subdevices fdev' = rev new @ subdevices fdev0 \<Longrightarrow> new_subdevices fdev0 fdev' = new"
  by (simp add: new_subdevices_def)

lemma word_below_pred:
  fixes a b :: u32
  assumes "b \<noteq> 0" "a < b - 1"
  shows "Suc (unat a) < unat b"
proof -
  from assms(1) have "unat (b - 1) = unat b - 1" by (simp add: unat_minus_one)
  with assms(2) show ?thesis by (simp add: word_less_nat_alt)
qed

lemma starts_inside_boundI:
  "starts_below_last rd (bound - 1) sds \<Longrightarrow> bound \<noteq> 0 \<Longrightarrow>
   \<forall>sd \<in> set sds. function_id sd = INFO_FUNCTION_ID \<longrightarrow> info_total_mem_size rd sd \<noteq> 0 \<Longrightarrow>
   starts_inside_bound rd bound sds"
proof (induction sds arbitrary: bound)
  case Nil
  then show ?case by simp
next
  case (Cons sd sds)
  then show ?case by (auto simp: word_below_pred)
qed

text \<open>
  Claim C2, as amended. The scanner compares no sum of base address and size with the
  bound. What holds of every subdevice a scan adds: its base address lies strictly
  inside the bound in effect when its header is read (base address + 1 is below the
  address space size of the bus or, after an info subdevice, below the total length that
  the latest info subdevice declares), and its size is greater than 32. The statement is
  for bounds that are not 0.
\<close>

theorem scanned_subdevices_start_inside_bound:
  assumes "address_space_size (bus_ops fdev0) (bus_data fdev0) \<noteq> 0"
    and "\<forall>sd \<in> set (new_subdevices fdev0 (snd (scan_for_subdevices fdev0))).
           function_id sd = INFO_FUNCTION_ID \<longrightarrow>
           info_total_mem_size (read32 (bus_ops fdev0) (bus_data fdev0)) sd \<noteq> 0"
  shows "starts_inside_bound (read32 (bus_ops fdev0) (bus_data fdev0))
           (address_space_size (bus_ops fdev0) (bus_data fdev0))
           (new_subdevices fdev0 (snd (scan_for_subdevices fdev0)))"
proof -
  from scan_for_subdevices_new [of fdev0] obtain new where
    n: "subdevices (snd (scan_for_subdevices fdev0)) = rev new @ subdevices fdev0"
       "starts_below_last (read32 (bus_ops fdev0) (bus_data fdev0))
          (address_space_size (bus_ops fdev0) (bus_data fdev0) - 1) new"
    by blast
  from n(1) have eq: "new_subdevices fdev0 (snd (scan_for_subdevices fdev0)) = new"
    by (rule new_subdevices_append)
  show ?thesis
    unfolding eq using n(2) assms unfolding eq by (rule starts_inside_boundI)
qed

theorem scanned_subdevices_start_inside_bound_info_chain:
  "address_space_size (bus_ops (axi_device (chain_info 112) 1000))
     (bus_data (axi_device (chain_info 112) 1000)) \<noteq> 0 \<and>
   map base_addr (new_subdevices (axi_device (chain_info 112) 1000)
     (snd (scan_for_subdevices (axi_device (chain_info 112) 1000)))) = [0, 48] \<and>
   starts_inside_bound
     (read32 (bus_ops (axi_device (chain_info 112) 1000))
        (bus_data (axi_device (chain_info 112) 1000)))
     (address_space_size (bus_ops (axi_device (chain_info 112) 1000))
        (bus_data (axi_device (chain_info 112) 1000)))
     (new_subdevices (axi_device (chain_info 112) 1000)
        (snd (scan_for_subdevices (axi_device (chain_info 112) 1000))))"
proof -
  have h1: "address_space_size (bus_ops (axi_device (chain_info 112) 1000))
     (bus_data (axi_device (chain_info 112) 1000)) \<noteq> 0"
    by code_simp
  have h2: "\<forall>sd \<in> set (new_subdevices (axi_device (chain_info 112) 1000)
       (snd (scan_for_subdevices (axi_device (chain_info 112) 1000)))).
     function_id sd = INFO_FUNCTION_ID \<longrightarrow>
     info_total_mem_size (read32 (bus_ops (axi_device (chain_info 112) 1000))
        (bus_data (axi_device (chain_info 112) 1000))) sd \<noteq> 0"
    by code_simp
  have h3: "map base_addr (new_subdevices (axi_device (chain_info 112) 1000)
     (snd (scan_for_subdevices (axi_device (chain_info 112) 1000)))) = [0, 48]"
    by code_simp
  from scanned_subdevices_start_inside_bound [OF h1 h2] h1 h3 show ?thesis
    by blast
qed

theorem oversize_subdevice_past_address_space:
  "subdevices (snd (scan_for_subdevices (axi_device chain_oversize 48))) \<noteq> [] \<and>
   \<not> unat (base_addr (hd (subdevices (snd (scan_for_subdevices
           (axi_device chain_oversize 48))))))
     + unat (mem_size (hd (subdevices (snd (scan_for_subdevices
           (axi_device chain_oversize 48))))))
     \<le> unat (address_space_size (bus_ops (axi_device chain_oversize 48))
               (bus_data (axi_device chain_oversize 48)))"
  by code_simp

text \<open>
  After an info subdevice that declares a total length other than 0, the scan ends when
  the address after the subdevice is not more than one byte inside that length.
\<close>

lemma info_bound_ends_scan:
  assumes "scan_guard s" and "32 < header_word s SUBDEV_SIZE_OFFSET"
    and "function_id (scanned_subdevice s) = INFO_FUNCTION_ID"
    and "header_word s (MAIN_HEADER_SIZE + SUB_HEADER_SIZE) \<noteq> 0"
    and "unat (header_word s (MAIN_HEADER_SIZE + SUB_HEADER_SIZE))
           \<le> unat (current_address s + header_word s SUBDEV_SIZE_OFFSET) + 1"
  shows "scan_loop s = snd (scan_body s)"
proof -
  let ?s' = "snd (scan_body s)"
  let ?T = "header_word s (MAIN_HEADER_SIZE + SUB_HEADER_SIZE)"
  from assms(1,2) have "scan_loop s = scan_loop ?s'"
    by (subst scan_loop.simps) (simp add: scan_body_fst)
  moreover have "\<not> scan_guard ?s'"
  proof -
    from assms(4) have "unat (?T - 1) = unat ?T - 1" by (simp add: unat_minus_one)
    with assms(5) have "\<not> current_address s + header_word s SUBDEV_SIZE_OFFSET < ?T - 1"
      by (simp add: word_less_nat_alt)
    with assms(3) show ?thesis
      by (simp add: scan_guard_def scan_body_continue [OF assms(2)])
  qed
  then have "scan_loop ?s' = ?s'" by (subst scan_loop.simps) simp
  ultimately show ?thesis by simp
qed

text \<open>
  Claim C6, at an input where the code departs from it. An info subdevice at address 0
  declares the total length 0 on a bus of 1000 bytes. The last address becomes
  \<open>0 - 1\<close>, which is \<open>0xFFFFFFFF\<close> in 32 bits, and the scan goes on: it adds the
  subdevice whose header follows at address 48.
\<close>

theorem info_length_zero_scan_goes_on:
  "fst (scan_for_subdevices (axi_device (chain_info 0) 1000)) = 2 \<and>
   map base_addr (subdevices (snd (scan_for_subdevices (axi_device (chain_info 0) 1000))))
     = [48, 0] \<and>
   map function_id (subdevices (snd (scan_for_subdevices (axi_device (chain_info 0) 1000))))
     = [1, 0]"
  by code_simp

text \<open>
  Claim C8, at an input where the code departs from it. On a bus of size 0 the last
  address is \<open>0 - 1\<close>, which is \<open>0xFFFFFFFF\<close> in 32 bits, so the loop is entered. On
  the AXI bus the two header words at address 0 are read (as 0, which ends the scan); on
  a bus module that reads without a test of the offset the scan adds a subdevice.
\<close>

theorem zero_size_bus_is_scanned:
  "bus_log (snd (scan_for_subdevices (axi_device chain_single 0))) =
     [BusAddressSpaceSize, BusRead32 0, BusRead32 4] \<and>
   fst (scan_for_subdevices (unchecked_device chain_single 0)) = 1 \<and>
   map mem_size (subdevices (snd (scan_for_subdevices (unchecked_device chain_single 0))))
     = [48]"
  by code_simp

section \<open>Interrupt registration\<close>

lemma register_irq_loop_absent:
  "find (\<lambda>hwirq. irq_nr hwirq = nr) irqs = None \<Longrightarrow>
   register_irq_loop so cur k nr irqs = (Inr 0, irqs)"
  by (induction irqs) (auto split: if_splits)

lemma register_irq_loop_duplicate:
  "find (\<lambda>hwirq. irq_nr hwirq = nr) irqs = Some h \<Longrightarrow> subscribed cur h \<Longrightarrow>
   register_irq_loop so cur k nr irqs = (Inl EINVAL, irqs)"
  by (induction irqs) (auto simp: subscribed_def split: if_splits option.splits)

lemma register_irq_loop_nomem:
  "find (\<lambda>hwirq. irq_nr hwirq = nr) irqs = Some h \<Longrightarrow> \<not> subscribed cur h \<Longrightarrow>
   register_irq_loop so cur False nr irqs = (Inl ENOMEM, irqs)"
  by (induction irqs) (auto simp: subscribed_def split: if_splits option.splits)

lemma register_irq_loop_new:
  "find (\<lambda>hwirq. irq_nr hwirq = nr) irqs = Some h \<Longrightarrow> \<not> subscribed cur h \<Longrightarrow>
   fst (register_irq_loop so cur True nr irqs) = Inr (uint (so + nr)) \<and>
   find (\<lambda>hwirq. irq_nr hwirq = nr) (snd (register_irq_loop so cur True nr irqs)) =
     Some (h\<lparr>signal_nr_with_offset := so + nr,
             flink_process_data_list := \<lparr>user_task = cur\<rparr> # flink_process_data_list h,
             signal_count := signal_count h + 1\<rparr>)"
  by (induction irqs) (auto simp: subscribed_def Let_def split: if_splits option.splits prod.splits)

lemma unregister_irq_loop_counts:
  "map signal_count (snd (unregister_irq_loop cur nr irqs)) = map signal_count irqs"
  by (induction irqs) (auto split: if_splits option.splits prod.splits)

lemma ioctl_REGISTER_IRQ_request:
  "nof_irqs fdev \<noteq> 0 \<Longrightarrow> irq_request us arg = Some nr \<Longrightarrow> nr < nof_irqs fdev \<Longrightarrow>
   ioctl_REGISTER_IRQ fdev us cur k arg =
     (fst (register_irq_loop (signal_offset fdev) cur k nr (hw_irq_data fdev)),
      fdev\<lparr>hw_irq_data :=
        snd (register_irq_loop (signal_offset fdev) cur k nr (hw_irq_data fdev))\<rparr>)"
  by (auto simp: ioctl_REGISTER_IRQ_def irq_request_def split: option.splits if_splits prod.splits)

lemma ioctl_REGISTER_IRQ_range:
  "nof_irqs fdev \<noteq> 0 \<Longrightarrow> irq_request us arg = Some nr \<Longrightarrow> nof_irqs fdev \<le> nr \<Longrightarrow>
   ioctl_REGISTER_IRQ fdev us cur k arg = (Inl EINVAL, fdev)"
  by (auto simp: ioctl_REGISTER_IRQ_def irq_request_def split: option.splits if_splits prod.splits)

lemma ioctl_REGISTER_IRQ_success:
  assumes "ioctl_REGISTER_IRQ fdev us cur k arg = (Inr v, fdev')"
    and "irq_request us arg = Some nr" and "irq_line fdev nr = Some h"
  shows "v = uint (signal_offset fdev + nr)"
    and "irq_line fdev' nr =
       Some (h\<lparr>signal_nr_with_offset := signal_offset fdev + nr,
             flink_process_data_list := \<lparr>user_task = cur\<rparr> # flink_process_data_list h,
             signal_count := signal_count h + 1\<rparr>)"
    and "nof_irqs fdev' = nof_irqs fdev" and "signal_offset fdev' = signal_offset fdev"
proof -
  from assms(1) have n0: "nof_irqs fdev \<noteq> 0"
    by (auto simp: ioctl_REGISTER_IRQ_def split: if_splits)
  from assms(1,2) n0 have lt: "nr < nof_irqs fdev"
    using ioctl_REGISTER_IRQ_range [of fdev us arg nr cur k] by (cases "nr < nof_irqs fdev") auto
  note eq = ioctl_REGISTER_IRQ_request [OF n0 assms(2) lt, of cur k]
  from assms(3) have f: "find (\<lambda>hwirq. irq_nr hwirq = nr) (hw_irq_data fdev) = Some h"
    by (simp add: irq_line_def)
  have ns: "\<not> subscribed cur h"
    using register_irq_loop_duplicate [OF f, of cur "signal_offset fdev" k] eq assms(1) by auto
  have kt: "k"
    using register_irq_loop_nomem [OF f ns, of "signal_offset fdev"] eq assms(1) by (cases k) auto
  from register_irq_loop_new [OF f ns, of "signal_offset fdev"] eq assms(1) kt
  show "v = uint (signal_offset fdev + nr)"
    and "irq_line fdev' nr =
       Some (h\<lparr>signal_nr_with_offset := signal_offset fdev + nr,
             flink_process_data_list := \<lparr>user_task = cur\<rparr> # flink_process_data_list h,
             signal_count := signal_count h + 1\<rparr>)"
    and "nof_irqs fdev' = nof_irqs fdev" and "signal_offset fdev' = signal_offset fdev"
    by (auto simp: irq_line_def)
qed

text \<open>
  A line below \<open>nof_irqs\<close> with no entry in the table (an initialisation that met a
  failure leaves such lines): the register call returns 0 and registers nothing.
\<close>

lemma ioctl_REGISTER_IRQ_missing_entry:
  "nof_irqs fdev \<noteq> 0 \<Longrightarrow> irq_request us arg = Some nr \<Longrightarrow> nr < nof_irqs fdev \<Longrightarrow>
   irq_line fdev nr = None \<Longrightarrow>
   fst (ioctl_REGISTER_IRQ fdev us cur k arg) = Inr 0 \<and>
   hw_irq_data (snd (ioctl_REGISTER_IRQ fdev us cur k arg)) = hw_irq_data fdev"
  by (simp add: ioctl_REGISTER_IRQ_request irq_line_def register_irq_loop_absent)

text \<open>
  A register call that succeeds and the unregister call of the same task after it: the
  unregister call succeeds, the list of subscribers is the one before the two calls, the
  count is one more than before.
\<close>

lemma unregister_irq_loop_found:
  "find (\<lambda>hwirq. irq_nr hwirq = nr) irqs = Some h \<Longrightarrow> signal_count h \<noteq> 0 \<Longrightarrow>
   subscribed cur h \<Longrightarrow>
   fst (unregister_irq_loop cur nr irqs) = Inr 0 \<and>
   find (\<lambda>hwirq. irq_nr hwirq = nr) (snd (unregister_irq_loop cur nr irqs)) =
     Some (h\<lparr>flink_process_data_list :=
              list_del_first (\<lambda>fsignal. pid (user_task fsignal) = pid cur)
                (flink_process_data_list h)\<rparr>)"
  by (induction irqs)
     (auto simp: subscribed_def split: if_splits option.splits prod.splits)

lemma ioctl_UNREGISTER_IRQ_request:
  "nof_irqs fdev \<noteq> 0 \<Longrightarrow> irq_request us arg = Some nr \<Longrightarrow> nr < nof_irqs fdev \<Longrightarrow>
   ioctl_UNREGISTER_IRQ fdev us cur arg =
     (fst (unregister_irq_loop cur nr (hw_irq_data fdev)),
      fdev\<lparr>hw_irq_data := snd (unregister_irq_loop cur nr (hw_irq_data fdev))\<rparr>)"
  by (auto simp: ioctl_UNREGISTER_IRQ_def irq_request_def
      split: option.splits if_splits prod.splits)

lemma register_unregister_round_trip:
  assumes "irq_request us arg = Some nr" and "irq_line fdev nr = Some h"
    and "signal_count h + 1 \<noteq> 0"
    and "ioctl_REGISTER_IRQ fdev us cur k arg = (Inr v, fdev')"
  shows "fst (ioctl_UNREGISTER_IRQ fdev' us cur arg) = Inr 0"
    and "irq_line (snd (ioctl_UNREGISTER_IRQ fdev' us cur arg)) nr =
           Some (h\<lparr>signal_nr_with_offset := signal_offset fdev + nr,
                   signal_count := signal_count h + 1\<rparr>)"
proof -
  note s = ioctl_REGISTER_IRQ_success [OF assms(4) assms(1) assms(2)]
  from assms(4) have n0: "nof_irqs fdev \<noteq> 0"
    by (auto simp: ioctl_REGISTER_IRQ_def split: if_splits)
  from assms(4,1) n0 have lt: "nr < nof_irqs fdev"
    using ioctl_REGISTER_IRQ_range [of fdev us arg nr cur k] by (cases "nr < nof_irqs fdev") auto
  let ?h' = "h\<lparr>signal_nr_with_offset := signal_offset fdev + nr,
             flink_process_data_list := \<lparr>user_task = cur\<rparr> # flink_process_data_list h,
             signal_count := signal_count h + 1\<rparr>"
  from s(2) have f: "find (\<lambda>hwirq. irq_nr hwirq = nr) (hw_irq_data fdev') = Some ?h'"
    by (simp add: irq_line_def)
  have c: "signal_count ?h' \<noteq> 0" using assms(3) by simp
  have sub: "subscribed cur ?h'" by (simp add: subscribed_def)
  note u = unregister_irq_loop_found [OF f c sub]
  from n0 lt s(3) have e: "ioctl_UNREGISTER_IRQ fdev' us cur arg =
     (fst (unregister_irq_loop cur nr (hw_irq_data fdev')),
      fdev'\<lparr>hw_irq_data := snd (unregister_irq_loop cur nr (hw_irq_data fdev'))\<rparr>)"
    by (intro ioctl_UNREGISTER_IRQ_request assms(1)) simp_all
  from u e show "fst (ioctl_UNREGISTER_IRQ fdev' us cur arg) = Inr 0" by simp
  from u e show "irq_line (snd (ioctl_UNREGISTER_IRQ fdev' us cur arg)) nr =
           Some (h\<lparr>signal_nr_with_offset := signal_offset fdev + nr,
                   signal_count := signal_count h + 1\<rparr>)"
    by (simp add: irq_line_def)
qed

text \<open>After an initialisation without failure every line below \<open>nof_irq\<close> has its entry.\<close>

lemma init_irq_loop_numbers:
  "irq_nr ` set (init_irq_loop (\<lambda>i. True) (\<lambda>nr. True) off n i acc) =
     irq_nr ` set acc \<union> of_nat ` {i..<i + n}"
proof (induction n arbitrary: i acc)
  case 0
  then show ?case by simp
next
  case (Suc n)
  have "{i..<i + Suc n} = insert i {Suc i..<Suc i + n}" by auto
  with Suc show ?case by (simp add: Let_def)
qed

lemma irq_line_after_init:
  assumes "nr < nof_irq"
  shows "irq_line (flink_device_init_irq ops bdata (\<lambda>i. True) (\<lambda>n. True) nof_irq off so) nr
           \<noteq> None"
proof -
  from assms have "unat nr \<in> {0..<0 + unat nof_irq}" by (simp add: word_less_nat_alt)
  then have "of_nat (unat nr) \<in> (of_nat ` {0..<0 + unat nof_irq} :: u32 set)" by (rule imageI)
  then have "nr \<in> irq_nr ` set (init_irq_loop (\<lambda>i. True) (\<lambda>n. True) off (unat nof_irq) 0 [])"
    by (simp add: init_irq_loop_numbers)
  then show ?thesis
    by (auto simp: irq_line_def flink_device_init_irq_def find_None_iff)
qed

text \<open>
  On a device with at least one interrupt, for a request that names a line below
  \<open>nof_irqs\<close> whose entry exists in the table (as it does after an initialisation
  without failure, see \<open>irq_line_after_init\<close>), a register call that succeeds returns
  the signal offset of the device plus the line number (in 32 bits), and stores that
  number in the entry.
\<close>

lemma register_on_existing_line:
  assumes "nof_irqs fdev \<noteq> 0" and "irq_request us arg = Some nr" and "nr < nof_irqs fdev"
    and "irq_line fdev nr \<noteq> None"
    and "ioctl_REGISTER_IRQ fdev us cur k arg = (Inr v, fdev')"
  shows "v = uint (signal_offset fdev + nr) \<and>
         map_option signal_nr_with_offset (irq_line fdev' nr) = Some (signal_offset fdev + nr)"
proof -
  from assms(4) obtain h where h: "irq_line fdev nr = Some h" by auto
  from ioctl_REGISTER_IRQ_success [OF assms(5) assms(2) h] show ?thesis by simp
qed

lemma register_on_existing_line_example:
  "nof_irqs irq_device \<noteq> 0 \<and> irq_request (user_irq_request 1) 100 = Some 1 \<and>
   1 < nof_irqs irq_device \<and> irq_line irq_device 1 \<noteq> None \<and>
   fst (ioctl_REGISTER_IRQ irq_device (user_irq_request 1) task_a True 100) = Inr 35 \<and>
   signal_offset irq_device + 1 = 35"
proof -
  have a: "nof_irqs irq_device \<noteq> 0" by code_simp
  have b: "irq_request (user_irq_request 1) 100 = Some 1" by code_simp
  have c: "1 < nof_irqs irq_device" by code_simp
  have d: "irq_line irq_device 1 \<noteq> None" by code_simp
  have e: "fst (ioctl_REGISTER_IRQ irq_device (user_irq_request 1) task_a True 100) = Inr 35"
    by code_simp
  then have e': "ioctl_REGISTER_IRQ irq_device (user_irq_request 1) task_a True 100 =
      (Inr 35, snd (ioctl_REGISTER_IRQ irq_device (user_irq_request 1) task_a True 100))"
    by (simp add: prod_eq_iff)
  have f: "signal_offset irq_device + 1 = 35" by code_simp
  from register_on_existing_line [OF a b c d e'] a b c d e f show ?thesis
    by blast
qed

text \<open>
  Claim C7, at an input where the code departs from it. The device is declared with 3
  interrupts and signal offset 34, and its initialisation stopped at line 1: the C code
  sets its parameter \<^verbatim>\<open>nof_irq\<close> to 0 there, the field \<open>nof_irqs\<close> stays 3 and the
  table has the entries of the lines 1 and 0 only. A register call for line 2, which is
  below \<open>nof_irqs\<close>, finds no entry, registers nothing and returns 0, where the signal
  offset plus the line number is 36.
\<close>

theorem register_on_line_without_entry_returns_zero:
  "nof_irqs partial_irq_device = 3 \<and>
   map irq_nr (hw_irq_data partial_irq_device) = [1, 0] \<and>
   irq_request (user_irq_request 2) 100 = Some 2 \<and>
   fst (ioctl_REGISTER_IRQ partial_irq_device (user_irq_request 2) task_a True 100) = Inr 0 \<and>
   uint (signal_offset partial_irq_device + 2) = 36 \<and>
   hw_irq_data (snd (ioctl_REGISTER_IRQ partial_irq_device (user_irq_request 2) task_a True 100))
     = hw_irq_data partial_irq_device"
  by code_simp

text \<open>
  Claim C4, as amended. A register call on a device with no interrupts returns
  \<^verbatim>\<open>-EPERM\<close>. On a device with interrupts, a line number that is not below
  \<open>nof_irqs\<close> returns \<^verbatim>\<open>-EINVAL\<close>, and so does a call of a task that is among the
  subscribers of the line already: the code has no error of its own for that case. In
  each of the three cases the device is as before, so the subscription count of the
  line is unchanged. A register call that succeeded, made again, is such a duplicate.
\<close>

theorem register_irq_rejections:
  "(nof_irqs fdev = 0 \<longrightarrow> ioctl_REGISTER_IRQ fdev us cur k arg = (Inl EPERM, fdev)) \<and>
   (nof_irqs fdev \<noteq> 0 \<and> irq_request us arg = Some nr \<and> nof_irqs fdev \<le> nr \<longrightarrow>
      ioctl_REGISTER_IRQ fdev us cur k arg = (Inl EINVAL, fdev)) \<and>
   (nof_irqs fdev \<noteq> 0 \<and> irq_request us arg = Some nr \<and> nr < nof_irqs fdev \<and>
    irq_line fdev nr = Some h \<and> subscribed cur h \<longrightarrow>
      ioctl_REGISTER_IRQ fdev us cur k arg = (Inl EINVAL, fdev)) \<and>
   (irq_request us arg = Some nr \<and> irq_line fdev nr \<noteq> None \<and>
    ioctl_REGISTER_IRQ fdev us cur k arg = (Inr v, fdev') \<longrightarrow>
      ioctl_REGISTER_IRQ fdev' us cur k' arg = (Inl EINVAL, fdev'))"
proof (intro conjI impI)
  assume "nof_irqs fdev = 0"
  then show "ioctl_REGISTER_IRQ fdev us cur k arg = (Inl EPERM, fdev)"
    by (simp add: ioctl_REGISTER_IRQ_def)
next
  assume "nof_irqs fdev \<noteq> 0 \<and> irq_request us arg = Some nr \<and> nof_irqs fdev \<le> nr"
  then show "ioctl_REGISTER_IRQ fdev us cur k arg = (Inl EINVAL, fdev)"
    by (simp add: ioctl_REGISTER_IRQ_range)
next
  assume a: "nof_irqs fdev \<noteq> 0 \<and> irq_request us arg = Some nr \<and> nr < nof_irqs fdev \<and>
    irq_line fdev nr = Some h \<and> subscribed cur h"
  then have "register_irq_loop (signal_offset fdev) cur k nr (hw_irq_data fdev) =
      (Inl EINVAL, hw_irq_data fdev)"
    by (intro register_irq_loop_duplicate [of nr _ h]) (simp_all add: irq_line_def)
  with a show "ioctl_REGISTER_IRQ fdev us cur k arg = (Inl EINVAL, fdev)"
    by (simp add: ioctl_REGISTER_IRQ_request)
next
  assume a: "irq_request us arg = Some nr \<and> irq_line fdev nr \<noteq> None \<and>
    ioctl_REGISTER_IRQ fdev us cur k arg = (Inr v, fdev')"
  then obtain h where h: "irq_line fdev nr = Some h" by auto
  from a have r: "ioctl_REGISTER_IRQ fdev us cur k arg = (Inr v, fdev')"
    and q: "irq_request us arg = Some nr" by simp_all
  note s = ioctl_REGISTER_IRQ_success [OF r q h]
  from r have n0: "nof_irqs fdev \<noteq> 0"
    by (auto simp: ioctl_REGISTER_IRQ_def split: if_splits)
  from r q n0 have lt: "nr < nof_irqs fdev"
    using ioctl_REGISTER_IRQ_range [of fdev us arg nr cur k] by (cases "nr < nof_irqs fdev") auto
  let ?h' = "h\<lparr>signal_nr_with_offset := signal_offset fdev + nr,
             flink_process_data_list := \<lparr>user_task = cur\<rparr> # flink_process_data_list h,
             signal_count := signal_count h + 1\<rparr>"
  have sub: "subscribed cur ?h'" by (simp add: subscribed_def)
  from s(2) have "find (\<lambda>hwirq. irq_nr hwirq = nr) (hw_irq_data fdev') = Some ?h'"
    by (simp add: irq_line_def)
  from register_irq_loop_duplicate [OF this sub]
  have "register_irq_loop (signal_offset fdev') cur k' nr (hw_irq_data fdev') =
      (Inl EINVAL, hw_irq_data fdev')" .
  with n0 lt q s(3) show "ioctl_REGISTER_IRQ fdev' us cur k' arg = (Inl EINVAL, fdev')"
    by (simp add: ioctl_REGISTER_IRQ_request)
qed

theorem register_irq_rejections_example:
  "nof_irqs (axi_device chain_single 48) = 0 \<and>
   fst (ioctl_REGISTER_IRQ (axi_device chain_single 48) (user_irq_request 0) task_a True 100)
     = Inl EPERM \<and>
   nof_irqs irq_device \<noteq> 0 \<and> irq_request (user_irq_request 7) 100 = Some 7 \<and>
   nof_irqs irq_device \<le> 7 \<and>
   fst (ioctl_REGISTER_IRQ irq_device (user_irq_request 7) task_a True 100) = Inl EINVAL \<and>
   irq_request (user_irq_request 1) 100 = Some 1 \<and> irq_line irq_device 1 \<noteq> None \<and>
   ioctl_REGISTER_IRQ irq_device (user_irq_request 1) task_a True 100
     = (Inr 35, registered_device) \<and>
   ioctl_REGISTER_IRQ registered_device (user_irq_request 1) task_a True 100
     = (Inl EINVAL, registered_device) \<and>
   map_option signal_count (irq_line registered_device 1) = Some 1"
proof -
  have a: "nof_irqs (axi_device chain_single 48) = 0" by code_simp
  have b: "nof_irqs irq_device \<noteq> 0" "irq_request (user_irq_request 7) 100 = Some 7"
    "nof_irqs irq_device \<le> 7"
    by code_simp+
  have c: "irq_request (user_irq_request 1) 100 = Some 1" "irq_line irq_device 1 \<noteq> None"
    by code_simp+
  have "fst (ioctl_REGISTER_IRQ irq_device (user_irq_request 1) task_a True 100) = Inr 35"
    by code_simp
  then have d: "ioctl_REGISTER_IRQ irq_device (user_irq_request 1) task_a True 100
     = (Inr 35, registered_device)"
    by (simp add: prod_eq_iff registered_device_def)
  have e: "map_option signal_count (irq_line registered_device 1) = Some 1" by code_simp
  note r1 = register_irq_rejections [where fdev = "axi_device chain_single 48"
      and us = "user_irq_request 0" and cur = task_a and k = True and arg = 100]
  note r2 = register_irq_rejections [where fdev = irq_device
      and us = "user_irq_request 7" and cur = task_a and k = True and arg = 100 and nr = 7]
  note r3 = register_irq_rejections [where fdev = irq_device
      and us = "user_irq_request 1" and cur = task_a and k = True and arg = 100 and nr = 1
      and v = 35 and fdev' = registered_device and k' = True]
  from r1 a have "fst (ioctl_REGISTER_IRQ (axi_device chain_single 48) (user_irq_request 0)
      task_a True 100) = Inl EPERM" by simp
  moreover from r2 b have "fst (ioctl_REGISTER_IRQ irq_device (user_irq_request 7) task_a True 100)
      = Inl EINVAL" by simp
  moreover from r3 c d have "ioctl_REGISTER_IRQ registered_device (user_irq_request 1) task_a
      True 100 = (Inl EINVAL, registered_device)" by blast
  ultimately show ?thesis using a b c d e by blast
qed

theorem duplicate_register_same_error_as_bad_line:
  "fst (ioctl_REGISTER_IRQ registered_device (user_irq_request 1) task_a True 100) = Inl EINVAL \<and>
   fst (ioctl_REGISTER_IRQ irq_device (user_irq_request 7) task_a True 100) = Inl EINVAL"
  by code_simp

text \<open>
  Claim C1, at an input where the code departs from it. On the example device task
  \<open>task_a\<close> registers for interrupt 1 and unregisters again; both calls succeed. The
  list of subscribers of the line is empty again, the subscription count, which was 0,
  stays at 1: the unregister walk never writes \<open>signal_count\<close> (lemmas
  \<open>unregister_irq_loop_counts\<close> and \<open>register_unregister_round_trip\<close>).
\<close>

theorem register_unregister_leaves_count_one:
  "fst (ioctl_REGISTER_IRQ irq_device (user_irq_request 1) task_a True 100) = Inr 35 \<and>
   fst (ioctl_UNREGISTER_IRQ registered_device (user_irq_request 1) task_a 100) = Inr 0 \<and>
   map_option signal_count (irq_line irq_device 1) = Some 0 \<and>
   map_option signal_count (irq_line unregistered_device 1) = Some 1 \<and>
   map_option flink_process_data_list (irq_line unregistered_device 1) = Some []"
  by code_simp

text \<open>
  Claim C3, as amended. When the container is copied from user space, its data pointer
  is not NULL, the subdevice exists and the offset is greater than the subdevice's
  \<open>mem_size\<close>, \<^verbatim>\<open>SELECT_AND_READ\<close> returns \<^verbatim>\<open>-EINVAL\<close> (not 0 bytes) and leaves device,
  bus log and user memory as they were: no bus operation is called.
\<close>

theorem select_and_read_offset_past_size:
  assumes "copy_from_user_container us arg = Some rw" and "data_rw rw \<noteq> 0"
    and "flink_get_subdevice_by_id (Some fdev) (subdevice_rw rw) = Some src"
    and "mem_size src < offset_rw rw"
  shows "ioctl_SELECT_AND_READ fdev us arg = (Inl EINVAL, fdev, us)"
  using assms by (simp add: ioctl_SELECT_AND_READ_def)

theorem select_and_read_offset_past_size_example:
  "copy_from_user_container (user_read_request 0 100 4) 100
     = Some \<lparr>subdevice_rw = 0, offset_rw = 100, size_rw = 4, data_rw = 200\<rparr> \<and>
   map_option mem_size (flink_get_subdevice_by_id (Some scanned_device) 0) = Some 48 \<and>
   ioctl_SELECT_AND_READ scanned_device (user_read_request 0 100 4) 100
     = (Inl EINVAL, scanned_device, user_read_request 0 100 4)"
proof -
  let ?rw = "\<lparr>subdevice_rw = 0, offset_rw = 100, size_rw = 4, data_rw = 200\<rparr>"
  have a: "copy_from_user_container (user_read_request 0 100 4) 100 = Some ?rw"
    by (simp add: copy_from_user_container_def user_read_request_def)
  have b: "data_rw ?rw \<noteq> 0" by simp
  have "flink_get_subdevice_by_id (Some scanned_device) 0 \<noteq> None" by code_simp
  then obtain src where c: "flink_get_subdevice_by_id (Some scanned_device) (subdevice_rw ?rw) = Some src"
    by auto
  have m: "map_option mem_size (flink_get_subdevice_by_id (Some scanned_device) 0) = Some 48"
    by code_simp
  with c have d: "mem_size src < offset_rw ?rw" by simp
  from select_and_read_offset_past_size [OF a b c d] a m show ?thesis by simp
qed

theorem select_and_read_past_size_is_error:
  "map mem_size (subdevices scanned_device) = [48] \<and>
   fst (ioctl_SELECT_AND_READ scanned_device (user_read_request 0 100 4) 100) = Inl EINVAL \<and>
   fst (ioctl_SELECT_AND_READ scanned_device (user_read_request 0 100 4) 100) \<noteq> Inr 0"
  by code_simp

section \<open>Sessions: selection, stream access and bit access\<close>

text \<open>
  Claim C9. For a session bound to a device \<^verbatim>\<open>flink_select_subdevice\<close> returns 0 for
  every id and both values of the exclusive flag, and the session's current subdevice
  becomes the result of the lookup. When the lookup finds nothing the current subdevice
  is NULL, and then \<^verbatim>\<open>flink_read\<close> and \<^verbatim>\<open>flink_write\<close> transfer 0 bytes and call no
  bus operation.
\<close>

theorem select_subdevice_always_succeeds:
  "flink_select_subdevice (Some d) (Some p) ident excl =
     (Inr 0, Some (p\<lparr>current_subdevice := flink_get_subdevice_by_id (Some d) ident\<rparr>)) \<and>
   (flink_get_subdevice_by_id (Some d) ident = None \<longrightarrow>
      snd (flink_select_subdevice (Some d) (Some p) ident excl) =
        Some (p\<lparr>current_subdevice := None\<rparr>) \<and>
      flink_read d (snd (flink_select_subdevice (Some d) (Some p) ident excl)) us data sz off =
        (0, d, us) \<and>
      flink_write d (snd (flink_select_subdevice (Some d) (Some p) ident excl)) us data sz off =
        (0, d))"
  by (simp add: flink_select_subdevice_def flink_read_def flink_write_def)

theorem select_subdevice_miss_example:
  "flink_get_subdevice_by_id (Some scanned_device) 5 = None \<and>
   flink_select_subdevice (Some scanned_device) (Some fresh_session) 5 False =
     (Inr 0, Some \<lparr>current_subdevice = None\<rparr>) \<and>
   flink_read scanned_device
     (snd (flink_select_subdevice (Some scanned_device) (Some fresh_session) 5 False))
     (user_read_request 0 0 4) 200 4 0 = (0, scanned_device, user_read_request 0 0 4) \<and>
   flink_write scanned_device
     (snd (flink_select_subdevice (Some scanned_device) (Some fresh_session) 5 False))
     (user_read_request 0 0 4) 200 4 0 = (0, scanned_device)"
proof -
  have a: "flink_get_subdevice_by_id (Some scanned_device) 5 = None" by code_simp
  note t = select_subdevice_always_succeeds [of scanned_device fresh_session 5 False
      "user_read_request 0 0 4" 200 4 0]
  from t a have s: "flink_select_subdevice (Some scanned_device) (Some fresh_session) 5 False =
     (Inr 0, Some \<lparr>current_subdevice = None\<rparr>)"
    by (simp add: fresh_session_def)
  from t a have r: "flink_read scanned_device
     (snd (flink_select_subdevice (Some scanned_device) (Some fresh_session) 5 False))
     (user_read_request 0 0 4) 200 4 0 = (0, scanned_device, user_read_request 0 0 4)"
    "flink_write scanned_device
     (snd (flink_select_subdevice (Some scanned_device) (Some fresh_session) 5 False))
     (user_read_request 0 0 4) 200 4 0 = (0, scanned_device)"
    by blast+
  from a s r show ?thesis by blast
qed

text \<open>
  Claim C10. Once the bit container is copied from user space, \<^verbatim>\<open>READ_SINGLE_BIT\<close> and
  \<^verbatim>\<open>WRITE_SINGLE_BIT\<close> dereference the current subdevice with no test: with no
  subdevice selected this is a NULL pointer dereference. With a subdevice selected (and
  a bit number below 32) they read 32 bits at \<open>base_addr + offset\<close> whatever the offset
  is, with no comparison with \<open>mem_size\<close>; the write case then writes the changed word
  to the same address. \<^verbatim>\<open>flink_read\<close> and \<^verbatim>\<open>flink_write\<close> test both conditions:
  with no subdevice selected or an offset greater than \<open>mem_size\<close> they return 0 and
  call no bus operation.
\<close>

theorem bit_ioctls_need_selected_subdevice:
  assumes "copy_from_user_bit_container us arg = Some c"
  shows "(current_subdevice pdata = None \<longrightarrow>
            ioctl_READ_SINGLE_BIT fdev pdata us arg = NullPointerDereference \<and>
            ioctl_WRITE_SINGLE_BIT fdev pdata us arg = NullPointerDereference) \<and>
         (current_subdevice pdata = Some sd \<and> unat (bit_bc c) < 32 \<longrightarrow>
            (let a = base_addr sd + offset_bc c;
                 t = read32 (bus_ops fdev) (bus_data fdev) a;
                 m = push_bit (unat (bit_bc c)) 1;
                 w = (if value_bc c \<noteq> 0 then t OR m else t AND NOT m)
             in ioctl_READ_SINGLE_BIT fdev pdata us arg =
                  Returns (Inr 0, fdev\<lparr>bus_log := bus_log fdev @ [BusRead32 a]\<rparr>,
                    us(arg := Some (UBitContainer
                      (c\<lparr>value_bc := (if t AND m \<noteq> 0 then 1 else 0)\<rparr>)))) \<and>
                ioctl_WRITE_SINGLE_BIT fdev pdata us arg =
                  Returns (Inr 0,
                    fdev\<lparr>bus_data := write32 (bus_ops fdev) (bus_data fdev) a w,
                         bus_log := bus_log fdev @ [BusRead32 a, BusWrite32 a w]\<rparr>))) \<and>
         (current_subdevice pdata = None \<or>
          (\<exists>sel. current_subdevice pdata = Some sel \<and> mem_size sel < word_of_int off) \<longrightarrow>
            flink_read fdev (Some pdata) us data sz off = (0, fdev, us) \<and>
            flink_write fdev (Some pdata) us data sz off = (0, fdev))"
proof (intro conjI impI)
  assume "current_subdevice pdata = None"
  with assms show "ioctl_READ_SINGLE_BIT fdev pdata us arg = NullPointerDereference"
    by (simp add: ioctl_READ_SINGLE_BIT_def)
next
  assume "current_subdevice pdata = None"
  with assms show "ioctl_WRITE_SINGLE_BIT fdev pdata us arg = NullPointerDereference"
    by (simp add: ioctl_WRITE_SINGLE_BIT_def)
next
  assume sel: "current_subdevice pdata = Some sd \<and> unat (bit_bc c) < 32"
  from assms have "us arg \<noteq> None"
    by (auto simp: copy_from_user_bit_container_def split: option.splits)
  then have w: "\<And>obj. copy_to_user us arg obj = Some (us(arg := Some obj))"
    by (auto simp: copy_to_user_def)
  from sel assms w
  show "let a = base_addr sd + offset_bc c;
            t = read32 (bus_ops fdev) (bus_data fdev) a;
            m = push_bit (unat (bit_bc c)) 1;
            w = (if value_bc c \<noteq> 0 then t OR m else t AND NOT m)
        in ioctl_READ_SINGLE_BIT fdev pdata us arg =
             Returns (Inr 0, fdev\<lparr>bus_log := bus_log fdev @ [BusRead32 a]\<rparr>,
               us(arg := Some (UBitContainer
                 (c\<lparr>value_bc := (if t AND m \<noteq> 0 then 1 else 0)\<rparr>)))) \<and>
           ioctl_WRITE_SINGLE_BIT fdev pdata us arg =
             Returns (Inr 0,
               fdev\<lparr>bus_data := write32 (bus_ops fdev) (bus_data fdev) a w,
                    bus_log := bus_log fdev @ [BusRead32 a, BusWrite32 a w]\<rparr>)"
    by (simp add: ioctl_READ_SINGLE_BIT_def ioctl_WRITE_SINGLE_BIT_def bus_read32_def
        bus_write32_def Let_def)
next
  assume "current_subdevice pdata = None \<or>
    (\<exists>sel. current_subdevice pdata = Some sel \<and> mem_size sel < word_of_int off)"
  then show "flink_read fdev (Some pdata) us data sz off = (0, fdev, us)"
    by (auto simp: flink_read_def)
next
  assume "current_subdevice pdata = None \<or>
    (\<exists>sel. current_subdevice pdata = Some sel \<and> mem_size sel < word_of_int off)"
  then show "flink_write fdev (Some pdata) us data sz off = (0, fdev)"
    by (auto simp: flink_write_def)
qed

theorem bit_ioctls_example:
  "copy_from_user_bit_container (user_bit_request 1000 3 1) 100 =
     Some \<lparr>offset_bc = 1000, bit_bc = 3, value_bc = 1, subdevice_bc = 0\<rparr> \<and>
   current_subdevice fresh_session = None \<and>
   ioctl_READ_SINGLE_BIT scanned_device fresh_session (user_bit_request 1000 3 1) 100 =
     NullPointerDereference \<and>
   ioctl_WRITE_SINGLE_BIT scanned_device fresh_session (user_bit_request 1000 3 1) 100 =
     NullPointerDereference \<and>
   flink_read scanned_device (Some fresh_session) (user_bit_request 1000 3 1) 100 4 0 =
     (0, scanned_device, user_bit_request 1000 3 1) \<and>
   map_option mem_size (current_subdevice selected_session) = Some 48 \<and>
   map_option base_addr (current_subdevice selected_session) = Some 0 \<and>
   ioctl_WRITE_SINGLE_BIT scanned_device selected_session (user_bit_request 1000 3 1) 100 =
     Returns (Inr 0,
       scanned_device\<lparr>bus_data := write32 (bus_ops scanned_device) (bus_data scanned_device)
                          1000 8,
                      bus_log := bus_log scanned_device @ [BusRead32 1000, BusWrite32 1000 8]\<rparr>)"
proof -
  let ?c = "\<lparr>offset_bc = 1000, bit_bc = 3, value_bc = 1, subdevice_bc = 0\<rparr>"
  have a: "copy_from_user_bit_container (user_bit_request 1000 3 1) 100 = Some ?c"
    by (simp add: copy_from_user_bit_container_def user_bit_request_def)
  have n: "current_subdevice fresh_session = None" by (simp add: fresh_session_def)
  have m: "map_option mem_size (current_subdevice selected_session) = Some 48"
    "map_option base_addr (current_subdevice selected_session) = Some 0"
    by code_simp+
  then obtain sd where sd: "current_subdevice selected_session = Some sd"
    "mem_size sd = 48" "base_addr sd = 0" by auto
  have t: "read32 (bus_ops scanned_device) (bus_data scanned_device) 1000 = 0" by code_simp
  note f = bit_ioctls_need_selected_subdevice [OF a, where pdata = fresh_session
      and fdev = scanned_device and data = 100 and sz = 4 and off = 0]
  note s = bit_ioctls_need_selected_subdevice [OF a, where pdata = selected_session
      and fdev = scanned_device and sd = sd]
  from f n have f': "ioctl_READ_SINGLE_BIT scanned_device fresh_session (user_bit_request 1000 3 1) 100 =
     NullPointerDereference" "ioctl_WRITE_SINGLE_BIT scanned_device fresh_session (user_bit_request 1000 3 1) 100 =
     NullPointerDereference" "flink_read scanned_device (Some fresh_session) (user_bit_request 1000 3 1) 100 4 0 =
     (0, scanned_device, user_bit_request 1000 3 1)"
    by blast+
  from s sd t have s': "ioctl_WRITE_SINGLE_BIT scanned_device selected_session (user_bit_request 1000 3 1) 100 =
     Returns (Inr 0,
       scanned_device\<lparr>bus_data := write32 (bus_ops scanned_device) (bus_data scanned_device)
                          1000 8,
                      bus_log := bus_log scanned_device @ [BusRead32 1000, BusWrite32 1000 8]\<rparr>)"
    by (simp add: Let_def)
  from a n m f' s' show ?thesis by blast
qed

end
